theory Spec2Isabelle
  imports Complex_Main "HOL-Library.AList" "HOL-Library.Char_ord" "HOL-Library.List_Lexorder"
    "HOL-Library.Sublist"
begin

section \<open>OpenMATBC: scenario compiler, priority dispatcher, scheduler and host broker\<close>

text \<open>
  A shallow embedding of \<^verbatim>\<open>src/OpenMATBC.py\<close> (class \<^verbatim>\<open>Main\<close>) and
  \<^verbatim>\<open>src/Networking/server.py\<close> (class \<^verbatim>\<open>OpenMATBCServerPerspectiveBroker\<close>).

  Conventions.
  \<^item> Python dictionaries are association lists in insertion order (the order in which
    Python iterates them); \<open>map_of\<close> is the lookup and \<open>AList.update\<close> the item assignment.
  \<^item> Every \<^verbatim>\<open>sys.exit()\<close>, every uncaught exception and the wait of the pause barrier is
    a value of \<open>status\<close>; a function returns the status together with the state it reached.
  \<^item> Calls into plugin objects and into Qt (\<^verbatim>\<open>show()\<close>, \<^verbatim>\<open>hide()\<close>, lifecycle hooks,
    \<^verbatim>\<open>applySyncData\<close>, the log sink, message boxes) are recorded, in call order, in the
    \<open>events\<close> field. What a plugin does inside a hook is not part of \<^verbatim>\<open>Main\<close>, except
    its calls back into \<^verbatim>\<open>Main\<close>: the body of an \<^verbatim>\<open>onStart\<close> hook calls \<^verbatim>\<open>Main.onPause\<close>
    (\<^verbatim>\<open>instruction\<close>, \<^verbatim>\<open>genericscales\<close>) and \<^verbatim>\<open>showCriticalMessage\<close>; these calls are data
    of the plugin (field \<open>start_calls\<close>) and run where the hook is called. No other hook
    of a plugin under \<^verbatim>\<open>src/Plugins\<close> calls a method of \<^verbatim>\<open>Main\<close> that changes its state.
  \<^item> \<^verbatim>\<open>Main.onResume\<close> is called from outside the coroutine (a button or a timer of the
    plugin, an input of the partner) while \<^verbatim>\<open>waitEndofPause\<close> waits. When that happens,
    and what the barrier reads until then, is a parameter (field \<open>pauses\<close> of \<open>env\<close>).
  \<^item> Clock readings are real numbers; floating point rounding is not modelled.
  \<^item> Text is ASCII: \<open>char\<close> is a byte, and the case and digit functions below act on
    the ASCII letters and digits only.
  \<^item> The Python builtins \<^verbatim>\<open>int\<close>, \<^verbatim>\<open>float\<close> and \<^verbatim>\<open>ast.literal_eval\<close> and the
    button the user presses in each message box are parameters (record \<open>env\<close>).
\<close>

subsection \<open>Strings\<close>

definition is_space :: "char \<Rightarrow> bool" where
  "is_space c = (c \<in> set [CHR 0x09, CHR 0x0A, CHR 0x0B, CHR 0x0C, CHR 0x0D,
                            CHR 0x1C, CHR 0x1D, CHR 0x1E, CHR 0x1F, CHR 0x20])"

definition strip :: "string \<Rightarrow> string" where
  "strip xs = rev (dropWhile is_space (rev (dropWhile is_space xs)))"

fun split_on :: "char \<Rightarrow> string \<Rightarrow> string list" where
  "split_on c [] = [[]]"
| "split_on c (x # xs) =
     (if x = c then [] # split_on c xs
      else (case split_on c xs of [] \<Rightarrow> [[x]] | w # ws \<Rightarrow> (x # w) # ws))"

definition startswith :: "string \<Rightarrow> string \<Rightarrow> bool" where
  "startswith xs p = (take (length p) xs = p)"

definition is_digit :: "char \<Rightarrow> bool" where
  "is_digit c = (c \<in> set ''0123456789'')"

definition isnumeric :: "string \<Rightarrow> bool" where
  "isnumeric xs = (xs \<noteq> [] \<and> list_all is_digit xs)"

definition ascii_lower :: string where
  "ascii_lower = ''abcdefghijklmnopqrstuvwxyz''"

definition ascii_upper :: string where
  "ascii_upper = ''ABCDEFGHIJKLMNOPQRSTUVWXYZ''"

definition upper_char :: "char \<Rightarrow> char" where
  "upper_char c = (case map_of (zip ascii_lower ascii_upper) c of Some u \<Rightarrow> u | None \<Rightarrow> c)"

definition lower_char :: "char \<Rightarrow> char" where
  "lower_char c = (case map_of (zip ascii_upper ascii_lower) c of Some l \<Rightarrow> l | None \<Rightarrow> c)"

definition upper :: "string \<Rightarrow> string" where
  "upper xs = map upper_char xs"

definition capitalize :: "string \<Rightarrow> string" where
  "capitalize xs = (case xs of [] \<Rightarrow> [] | x # r \<Rightarrow> upper_char x # map lower_char r)"

text \<open>The value of a string of ASCII digits: what \<^verbatim>\<open>int\<close> returns on such a string.\<close>

definition digit_value :: "char \<Rightarrow> int" where
  "digit_value c = (case map_of (zip ''0123456789'' [0, 1, 2, 3, 4, 5, 6, 7, 8, 9]) c of
                      Some d \<Rightarrow> d | None \<Rightarrow> 0)"

definition int_of_digits :: "string \<Rightarrow> int option" where
  "int_of_digits xs =
     (if isnumeric xs then Some (foldl (\<lambda>acc c. 10 * acc + digit_value c) 0 xs) else None)"

subsection \<open>Data model\<close>

text \<open>A value in a \<^verbatim>\<open>parameters\<close> dictionary. \<open>POther\<close> is any other Python object.\<close>

datatype pval = PBool bool | PInt int | PFloat real | PStr string | PNone
  | PDict "(string \<times> pval) list" | POther

datatype pyerr = KeyError | IndexError | ValueError | UnboundLocalError | TypeError
  | AttributeError

text \<open>
  \<open>Ok\<close>: the call returned. \<open>Exited\<close>: \<^verbatim>\<open>sys.exit()\<close>. \<open>Raised e\<close>: an uncaught
  exception. \<open>Blocked\<close>: the coroutine is waiting in \<^verbatim>\<open>waitEndofPause\<close>.
\<close>

datatype status = Ok | Exited | Raised pyerr | Blocked

text \<open>The message boxes of \<^verbatim>\<open>showCriticalMessage\<close>, one constructor per call site.\<close>

datatype dialog =
    BadFieldCount nat string
  | UnknownPlugin string nat
  | WrongTimeFormat string nat
  | HookNotFound string string nat
  | UnknownVariable string string nat
  | VariableUnknownInTask string string
  | MalformedParameters string
  | NoEntryFound string
  | NoStartCommand string
  | NoEndCommand
  | NoTaskStarted
  | CannotEvaluate
  | NeedsOnUpdate string
  | SyncNotClient string
  | SyncNoApply string
  | TimingOverflow
  | InputNotServer string
  | InputNoApply string
  | InputNoPlugin string
  | PluginMessage string

type_synonym command = "string list"

text \<open>
  \<open>Exec task command priority\<close> marks that the dispatcher entered the body of its
  innermost loop for this command (past the priority filter), and \<open>Dispatch key\<close> that
  \<^verbatim>\<open>executeScenario\<close> was called for the key. Both are instrumentation: the source
  writes nothing for a command that changes no flag and has no hook.
\<close>

datatype event =
    Dialog dialog
  | Dispatch string
  | Exec string command int
  | Hook string string
  | WidgetShow string
  | WidgetHide string
  | LabelShow string
  | LabelHide string
  | LabelText string string
  | LogLine "string list"
  | TimerPause nat
  | TimerResume nat
  | PopNewInputs string
  | ApplySyncData string bool
  | ApplyNewInputs string string
  | WindowClose

text \<open>A call of the body of an \<^verbatim>\<open>onStart\<close> hook into \<^verbatim>\<open>Main\<close>:
  \<^verbatim>\<open>self.parent().onPause()\<close> or \<^verbatim>\<open>self.parent().showCriticalMessage(msg)\<close>.\<close>

datatype callback = CallOnPause | CallCritical string

text \<open>One entry of \<^verbatim>\<open>PLUGINS_TASK\<close>, with what \<^verbatim>\<open>Main\<close> asks of the Task object and
  the calls its \<^verbatim>\<open>onStart\<close> makes into \<^verbatim>\<open>Main\<close>, in order.\<close>

record plugin_task =
  attrs :: "string list"
  cls_is_server :: bool
  cls_is_client :: bool
  parameters :: "(string \<times> pval) list"
  taskRunning :: bool
  taskPaused :: bool
  taskVisible :: bool
  taskPreviouslyPaused :: "bool option"
  UPDATE_TIME :: "real option"
  TIME_SINCE_UPDATE :: real
  ui_label :: bool
  start_calls :: "callback list"

type_synonym entry = "command \<times> int"

type_synonym scenario = "(string \<times> (string \<times> entry list) list) list"

text \<open>The object \<^verbatim>\<open>Main\<close>. Four fields belong to the model and not to the object:
  \<open>reactor_running\<close> (the Twisted reactor has not been stopped), \<open>dialogs_shown\<close> and
  \<open>pauses_done\<close> (how many message boxes were shown and how many waits of the pause
  barrier have ended), and \<open>resumed\<close> (the readings of \<^verbatim>\<open>default_timer()\<close> and
  \<^verbatim>\<open>time.time()\<close> at the end of the last wait of the running tick, if it waited).\<close>

record main =
  is_client :: bool
  is_server :: bool
  am_connected :: bool
  main_parameters :: "(string \<times> pval) list"
  PLUGINS_TASK :: "(string \<times> plugin_task) list"
  loadedTasks :: "string list"
  scenariocontents :: scenario
  scenarioTimeStr :: "string option"
  totalElapsedTime_ms :: real
  last_time_microsec :: real
  last_client_sync :: real
  connection_timeout :: real
  experiment_pause :: bool
  experiment_running :: bool
  termination_message_sent :: bool
  ended_time :: real
  registeredTaskTimer :: nat
  reactor_running :: bool
  dialogs_shown :: nat
  pauses_done :: nat
  resumed :: "(real \<times> real) option"
  events :: "event list"

text \<open>What one scheduler tick reads from outside: the two clocks (\<^verbatim>\<open>default_timer()\<close>,
  \<^verbatim>\<open>time.time()\<close>), the dictionary \<^verbatim>\<open>get_sync_data\<close> answered with, and the
  answer of \<^verbatim>\<open>get_time\<close>. A tick takes no time on either clock, except where it waits
  in the pause barrier.\<close>

record tick_in =
  now_timer :: real
  now_wall :: real
  sync_data :: "(string \<times> pval) list"
  host_time :: real

text \<open>One wait in \<^verbatim>\<open>waitEndofPause\<close>: what the iterations of its loop read, and the two
  clocks when the loop is left after \<^verbatim>\<open>Main.onResume\<close> was called.\<close>

record pause_in =
  polls :: "tick_in list"
  resume_timer :: real
  resume_wall :: real

text \<open>
  \<open>answers n\<close> is the button pressed in the \<open>n\<close>-th message box of the run
  (\<open>True\<close> is Abort, \<open>False\<close> is Ignore) and \<open>answered_at n\<close> the reading of
  \<^verbatim>\<open>time.time()\<close> at that moment. \<open>pauses n\<close> is the \<open>n\<close>-th wait of the pause barrier;
  \<open>None\<close> when \<^verbatim>\<open>Main.onResume\<close> is never called during it.
\<close>

record env =
  answers :: "nat \<Rightarrow> bool"
  answered_at :: "nat \<Rightarrow> real"
  pauses :: "nat \<Rightarrow> pause_in option"
  py_int :: "string \<Rightarrow> int option"
  py_float :: "string \<Rightarrow> real option"
  literal_eval :: "string \<Rightarrow> pval option"

definition emit :: "event list \<Rightarrow> main \<Rightarrow> main" where
  "emit es s = s\<lparr>events := events s @ es\<rparr>"

text \<open>Sequencing: the rest runs only when the first part returned.\<close>

definition and_then :: "status \<times> main \<Rightarrow> (main \<Rightarrow> status \<times> main) \<Rightarrow> status \<times> main" where
  "and_then r f = (case r of (Ok, s) \<Rightarrow> f s | _ \<Rightarrow> r)"

text \<open>The hooks of that name of all plugins, in the order of \<^verbatim>\<open>PLUGINS_TASK\<close>.\<close>

definition plugin_hooks :: "string \<Rightarrow> main \<Rightarrow> event list" where
  "plugin_hooks name s =
     concat (map (\<lambda>kv. if fst kv \<noteq> ''__main__'' \<and> name \<in> set (attrs (snd kv))
                        then [Hook (fst kv) name] else []) (PLUGINS_TASK s))"

text \<open>\<^verbatim>\<open>Main.end\<close>: the \<^verbatim>\<open>onEnd\<close> hook of every plugin, the log line, the window closed;
  then the reactor is stopped (Host) or the process exits.\<close>

definition end_session :: "main \<Rightarrow> status \<times> main" where
  "end_session s =
     (let s1 = emit (plugin_hooks ''onEnd'' s @ [LogLine [''MAIN'', ''STATE'', [], ''END''], WindowClose]) s
      in if is_server s1 then (Ok, s1\<lparr>reactor_running := False\<rparr>) else (Exited, s1))"

text \<open>\<^verbatim>\<open>Main.onEnd\<close>; \<open>wall\<close> is the reading of \<^verbatim>\<open>time.time()\<close>.\<close>

definition onEnd :: "real \<Rightarrow> main \<Rightarrow> status \<times> main" where
  "onEnd wall s =
     (let s1 = s\<lparr>experiment_running := False\<rparr>
      in if \<not> is_server s1 then end_session s1 else (Ok, s1\<lparr>ended_time := wall\<rparr>))"

text \<open>\<^verbatim>\<open>showCriticalMessage\<close>: Abort runs \<^verbatim>\<open>onEnd()\<close> and \<^verbatim>\<open>sys.exit()\<close>, Ignore returns.\<close>

definition showCriticalMessage :: "env \<Rightarrow> dialog \<Rightarrow> main \<Rightarrow> status \<times> main" where
  "showCriticalMessage e d s =
     (let n = dialogs_shown s;
          s1 = (emit [Dialog d] s)\<lparr>dialogs_shown := n + 1\<rparr>
      in if answers e n then (Exited, snd (onEnd (answered_at e n) s1)) else (Ok, s1))"

text \<open>
  \<^verbatim>\<open>hasattr(taskclass, name)\<close> for a name of the form \<^verbatim>\<open>on\<close> + capitalised word. For
  \<^verbatim>\<open>__main__\<close> the object is \<^verbatim>\<open>Main\<close> itself, whose methods of that form are
  \<^verbatim>\<open>onEnd\<close>, \<^verbatim>\<open>onPause\<close> and \<^verbatim>\<open>onResume\<close>.
\<close>

definition main_attrs :: "string list" where
  "main_attrs = [''onEnd'', ''onPause'', ''onResume'']"

definition has_attr :: "main \<Rightarrow> string \<Rightarrow> string \<Rightarrow> bool" where
  "has_attr s task name =
     (if task = ''__main__'' then name \<in> set main_attrs
      else (case map_of (PLUGINS_TASK s) task of
              Some p \<Rightarrow> name \<in> set (attrs p) | None \<Rightarrow> False))"

definition task_parameters :: "main \<Rightarrow> string \<Rightarrow> (string \<times> pval) list" where
  "task_parameters s task =
     (if task = ''__main__'' then main_parameters s
      else (case map_of (PLUGINS_TASK s) task of Some p \<Rightarrow> parameters p | None \<Rightarrow> []))"

definition lifecycle_names :: "string list" where
  "lifecycle_names = [''onStart'', ''onStop'', ''onHide'', ''onPause'', ''onShow'', ''onResume'']"

subsection \<open>Scenario compiler\<close>

text \<open>
  \<^verbatim>\<open>testParameterVariable\<close>: the loop over the dash-separated keys of the address.
  The result is the returned boolean.
\<close>

fun test_keys :: "env \<Rightarrow> string \<Rightarrow> string list \<Rightarrow> pval \<Rightarrow> main \<Rightarrow> status \<times> bool \<times> main" where
  "test_keys e task [] current s = (Ok, True, s)"
| "test_keys e task (k # ks) current s =
     (case current of
        PDict d \<Rightarrow>
          (case map_of d k of
             Some v \<Rightarrow> test_keys e task ks v s
           | None \<Rightarrow>
               (case showCriticalMessage e (VariableUnknownInTask k task) s of
                  (st, s') \<Rightarrow> (st, False, s')))
      | _ \<Rightarrow>
          (case showCriticalMessage e (MalformedParameters task) s of
             (st, s') \<Rightarrow> (st, False, s')))"

definition testParameterVariable :: "env \<Rightarrow> string \<Rightarrow> string \<Rightarrow> main \<Rightarrow> status \<times> bool \<times> main" where
  "testParameterVariable e task adress s =
     (let current = task_parameters s task
      in if current = [] then (Ok, False, s)
         else test_keys e task (split_on CHR ''-'' adress) (PDict current) s)"

text \<open>
  What \<^verbatim>\<open>getCommand\<close> hands back: the three-tuple \<^verbatim>\<open>(None, None, None)\<close>, the four-tuple
  \<^verbatim>\<open>(time, task, command, priority)\<close>, or no value (exit or exception).
\<close>

datatype got = Ret3 | Ret4 string string command int | NoValue status

text \<open>
  The \<^verbatim>\<open>return time, task, command, priority\<close> statement: \<open>priority\<close> is \<open>None\<close> while
  the local variable is unassigned, and reading it raises \<^verbatim>\<open>UnboundLocalError\<close>.
\<close>

definition return4 :: "string \<Rightarrow> string \<Rightarrow> command \<Rightarrow> int option \<Rightarrow> got" where
  "return4 time task command priority =
     (case priority of None \<Rightarrow> NoValue (Raised UnboundLocalError)
      | Some p \<Rightarrow> Ret4 time task command p)"

text \<open>After a message box: the three-tuple when the user ignored it.\<close>

definition reject :: "env \<Rightarrow> dialog \<Rightarrow> main \<Rightarrow> got \<times> main" where
  "reject e d s =
     (case showCriticalMessage e d s of
        (Ok, s') \<Rightarrow> (Ret3, s')
      | (st, s') \<Rightarrow> (NoValue st, s'))"

text \<open>\<^verbatim>\<open>getCommand\<close> from the point where \<open>time\<close>, \<open>task\<close>, \<open>command\<close> and \<open>priority\<close> are set.\<close>

definition check_command ::
  "env \<Rightarrow> nat \<Rightarrow> string \<Rightarrow> string \<Rightarrow> command \<Rightarrow> int option \<Rightarrow> main \<Rightarrow> got \<times> main" where
  "check_command e lineNumber time task command priority s =
     (if length command = 1 then
        (let functionname = ''on'' @ capitalize (hd command)
         in if \<not> has_attr s task functionname \<and> functionname \<notin> set lifecycle_names
            then reject e (HookNotFound functionname task lineNumber) s
            else (return4 time task command priority, s))
      else
        (case testParameterVariable e task (hd command) s of
           (Ok, True, s') \<Rightarrow> (return4 time task command priority, s')
         | (Ok, False, s') \<Rightarrow> reject e (UnknownVariable (hd command) task lineNumber) s'
         | (st, _, s') \<Rightarrow> (NoValue st, s')))"

text \<open>The time field: \<^verbatim>\<open>H:MM:SS\<close> or \<^verbatim>\<open>H:MM:SS-priority\<close>.\<close>

definition check_time ::
  "env \<Rightarrow> nat \<Rightarrow> string \<Rightarrow> string \<Rightarrow> command \<Rightarrow> main \<Rightarrow> got \<times> main" where
  "check_time e lineNumber time task command s =
     (if length time \<noteq> 7 then
        (let splitTime = split_on CHR ''-'' time
         in if length splitTime = 2 \<and> length (splitTime ! 0) = 7 \<and> isnumeric (splitTime ! 1)
            then (case py_int e (splitTime ! 1) of
                    None \<Rightarrow> (NoValue (Raised ValueError), s)
                  | Some p \<Rightarrow> check_command e lineNumber (splitTime ! 0) task command (Some p) s)
            else (case showCriticalMessage e (WrongTimeFormat task lineNumber) s of
                    (Ok, s') \<Rightarrow> check_command e lineNumber time task command None s'
                  | (st, s') \<Rightarrow> (NoValue st, s')))
      else check_command e lineNumber time task command (Some 0) s)"

definition getCommand :: "env \<Rightarrow> nat \<Rightarrow> string \<Rightarrow> main \<Rightarrow> got \<times> main" where
  "getCommand e lineNumber lineContent s =
     (let lineList = split_on CHR '';'' (strip lineContent)
      in if \<not> (1 < length lineList \<and> length lineList < 5)
         then reject e (BadFieldCount lineNumber lineContent) s
         else
           (let lineList1 =
                  (if length lineList = 2 \<or> lineList ! 1 \<in> set (map fst (main_parameters s))
                   then hd lineList # ''__main__'' # tl lineList else lineList);
                time = lineList1 ! 0;
                task = lineList1 ! 1;
                command0 = drop 2 lineList1;
                command =
                  (if task = ''sysmon'' \<and> hd command0 = ''feedbackduration''
                   then ''feedbacks-positive-duration'' # tl command0 else command0)
            in if task = ''__main__'' \<or> map_of (PLUGINS_TASK s) task \<noteq> None
               then check_time e lineNumber time task command s
               else reject e (UnknownPlugin task lineNumber) s))"

text \<open>
  The body of the loop of \<^verbatim>\<open>loadScenario\<close> after \<^verbatim>\<open>getCommand\<close> returned four values:
  the three dictionary updates. \<open>Inl KeyError\<close> is \<^verbatim>\<open>scenario_content[time]\<close> on a
  missing key.
\<close>

definition add_entry :: "string \<Rightarrow> string \<Rightarrow> command \<Rightarrow> int \<Rightarrow> scenario \<Rightarrow> pyerr + scenario" where
  "add_entry time task command priority sc =
     (let sc1 = (if time \<noteq> [] \<and> map_of sc time = None then sc @ [(time, [])] else sc)
      in if task = [] then Inr sc1
         else (case map_of sc1 time of
                 None \<Rightarrow> Inl KeyError
               | Some tasks \<Rightarrow>
                   (let tasks1 = (if map_of tasks task = None then tasks @ [(task, [])] else tasks);
                        tasks2 = (if command \<noteq> [] \<and> time \<noteq> []
                                  then AList.update task (the (map_of tasks1 task) @ [(command, priority)]) tasks1
                                  else tasks1)
                    in Inr (AList.update time tasks2 sc1))))"

definition add_loaded :: "string \<Rightarrow> main \<Rightarrow> main" where
  "add_loaded task s =
     (if task \<notin> set (loadedTasks s) then s\<lparr>loadedTasks := loadedTasks s @ [task]\<rparr> else s)"

text \<open>
  One iteration of the loop over the lines of the file. Unpacking the three-tuple into
  \<^verbatim>\<open>time, task, command, priority\<close> raises \<^verbatim>\<open>ValueError\<close>.
\<close>

definition load_line :: "env \<Rightarrow> nat \<Rightarrow> string \<Rightarrow> scenario \<times> main \<Rightarrow> status \<times> scenario \<times> main" where
  "load_line e lineNumber raw acc =
     (let scenario_line = strip raw; sc = fst acc; s = snd acc
      in if \<not> startswith scenario_line ''#'' \<and> scenario_line \<noteq> [] then
           (case getCommand e lineNumber scenario_line s of
              (NoValue st, s') \<Rightarrow> (st, sc, s')
            | (Ret3, s') \<Rightarrow> (Raised ValueError, sc, s')
            | (Ret4 time task command priority, s') \<Rightarrow>
                (case add_entry time task command priority sc of
                   Inl err \<Rightarrow> (Raised err, sc, add_loaded task s')
                 | Inr sc' \<Rightarrow> (Ok, sc', add_loaded task s')))
         else (Ok, sc, s))"

fun load_lines :: "env \<Rightarrow> nat \<Rightarrow> string list \<Rightarrow> scenario \<times> main \<Rightarrow> status \<times> scenario \<times> main" where
  "load_lines e n [] acc = (Ok, fst acc, snd acc)"
| "load_lines e n (l # ls) acc =
     (case load_line e n l acc of
        (Ok, sc, s) \<Rightarrow> load_lines e (Suc n) ls (sc, s)
      | r \<Rightarrow> r)"

text \<open>\<^verbatim>\<open>validateScenario\<close>: the entries of one task over all time keys.\<close>

definition task_entries :: "scenario \<Rightarrow> string \<Rightarrow> entry list" where
  "task_entries sc checktask =
     concat (map (\<lambda>kv. case map_of (snd kv) checktask of None \<Rightarrow> [] | Some es \<Rightarrow> es) sc)"

text \<open>The loop over \<^verbatim>\<open>loadedTasks\<close>. The boolean is \<open>False\<close> when the loop returned
  \<^verbatim>\<open>False\<close>; \<^verbatim>\<open>thisentry[0][0]\<close> on an empty command raises \<^verbatim>\<open>IndexError\<close>.\<close>

fun check_tasks :: "env \<Rightarrow> scenario \<Rightarrow> string list \<Rightarrow> main \<Rightarrow> status \<times> bool \<times> main" where
  "check_tasks e sc [] s = (Ok, True, s)"
| "check_tasks e sc (checktask # rest) s =
     (if checktask = ''__main__'' then check_tasks e sc rest s
      else
        (let entries = task_entries sc checktask
         in if length entries = 0 then
              (case showCriticalMessage e (NoEntryFound checktask) s of (st, s') \<Rightarrow> (st, False, s'))
            else if \<exists>thisentry \<in> set entries. fst thisentry = [] then (Raised IndexError, False, s)
            else if ''start'' \<notin> set (map (\<lambda>thisentry. hd (fst thisentry)) entries) then
              (case showCriticalMessage e (NoStartCommand checktask) s of (st, s') \<Rightarrow> (st, False, s'))
            else check_tasks e sc rest s))"

text \<open>
  The \<^verbatim>\<open>try\<close> block: \<open>True\<close> when no exception was raised in it. \<^verbatim>\<open>[...][-1]\<close> and
  \<^verbatim>\<open>lastcmd[0]\<close> raise \<^verbatim>\<open>IndexError\<close> on an empty list, which the block catches.
\<close>

definition ends_with_end :: "scenario \<Rightarrow> bool" where
  "ends_with_end sc =
     (if sc = [] then False
      else (let lasttime = fst (last (sort_key fst sc));
                lasttask = snd (last (sort_key fst sc))
            in if lasttask = [] then False
               else (let lastcmd = snd (last lasttask)
                     in if length (the (map_of sc lasttime)) > 1 then False
                        else if lastcmd = [] then False
                        else ''end'' \<in> set (fst (lastcmd ! 0)))))"

definition validateScenario :: "env \<Rightarrow> scenario \<Rightarrow> main \<Rightarrow> status \<times> bool \<times> main" where
  "validateScenario e sc s =
     (case check_tasks e sc (loadedTasks s) s of
        (Ok, True, s1) \<Rightarrow>
          (if \<not> ends_with_end sc then
             (case showCriticalMessage e NoEndCommand s1 of (st, s2) \<Rightarrow> (st, False, s2))
           else if length (loadedTasks s1) \<le> 1 then
             (case showCriticalMessage e NoTaskStarted s1 of (st, s2) \<Rightarrow> (st, False, s2))
           else (Ok, True, s1))
      | r \<Rightarrow> r)"

text \<open>
  \<^verbatim>\<open>loadScenario\<close> on the lines of the file (\<^verbatim>\<open>enumerate\<close> numbers them from 0). It
  returns the dictionary only when validation returned \<^verbatim>\<open>True\<close>; otherwise it exits.
\<close>

definition loadScenario :: "env \<Rightarrow> string list \<Rightarrow> main \<Rightarrow> status \<times> scenario \<times> main" where
  "loadScenario e scenario_file s =
     (case load_lines e 0 scenario_file ([], s) of
        (Ok, sc, s1) \<Rightarrow>
          (case validateScenario e sc s1 of
             (Ok, True, s2) \<Rightarrow> (Ok, sc, s2)
           | (Ok, False, s2) \<Rightarrow> (Exited, sc, s2)
           | (st, _, s2) \<Rightarrow> (st, sc, s2))
      | r \<Rightarrow> r)"

subsection \<open>Session operations of Main\<close>

text \<open>\<^verbatim>\<open>Main.onPause\<close>: the body of the loop over \<^verbatim>\<open>PLUGINS_TASK\<close> for one plugin.\<close>

definition pause_plugin :: "bool \<Rightarrow> string \<times> plugin_task \<Rightarrow> (string \<times> plugin_task) \<times> event list" where
  "pause_plugin hide_ui kv =
     (let plugin = fst kv; p = snd kv
      in if plugin \<noteq> ''__main__'' then
           (let p1 = p\<lparr>taskPreviouslyPaused := Some (taskPaused p)\<rparr>;
                p2 = (if \<not> taskPaused p1 then p1\<lparr>taskPaused := True\<rparr> else p1);
                ev1 = (if \<not> taskPaused p1 \<and> ''onPause'' \<in> set (attrs p1)
                       then [Hook plugin ''onPause''] else []);
                ev2 = (if hide_ui \<and> ui_label p1 then [LabelHide plugin] else [])
            in ((plugin, p2), ev1 @ ev2 @ [WidgetHide plugin]))
         else (kv, []))"

definition onPause :: "bool \<Rightarrow> main \<Rightarrow> main" where
  "onPause hide_ui s =
     (let s1 = (emit [LogLine [''MAIN'', ''STATE'', [], ''PAUSE'']] s)\<lparr>experiment_pause := True\<rparr>;
          s2 = emit (map TimerPause [0 ..< registeredTaskTimer s1]) s1;
          rs = map (pause_plugin hide_ui) (PLUGINS_TASK s2)
      in (emit (concat (map snd rs)) s2)\<lparr>PLUGINS_TASK := map fst rs\<rparr>)"

text \<open>\<^verbatim>\<open>Main.onResume\<close>: one plugin. \<^verbatim>\<open>taskPreviouslyPaused\<close> is read only for a running
  plugin; the key is missing (\<open>None\<close>, a \<^verbatim>\<open>KeyError\<close>) until \<^verbatim>\<open>onPause\<close> has run.\<close>

definition resume_plugin :: "string \<times> plugin_task \<Rightarrow> pyerr + ((string \<times> plugin_task) \<times> event list)" where
  "resume_plugin kv =
     (let plugin = fst kv; p = snd kv
      in if plugin \<noteq> ''__main__'' then
           (if taskRunning p then
              (case taskPreviouslyPaused p of
                 None \<Rightarrow> Inl KeyError
               | Some prev \<Rightarrow>
                   (if \<not> prev then
                      Inr ((plugin, p\<lparr>taskPaused := False\<rparr>),
                           (if ''onResume'' \<in> set (attrs p) then [Hook plugin ''onResume''] else [])
                           @ (if ui_label p then [LabelShow plugin] else [])
                           @ [WidgetShow plugin])
                    else Inr (kv, [])))
            else Inr (kv, []))
         else Inr (kv, []))"

fun resume_plugins ::
  "(string \<times> plugin_task) list \<Rightarrow> (string \<times> plugin_task) list \<Rightarrow> main \<Rightarrow> status \<times> main" where
  "resume_plugins done [] s = (Ok, s\<lparr>PLUGINS_TASK := done\<rparr>)"
| "resume_plugins done (kv # rest) s =
     (case resume_plugin kv of
        Inl err \<Rightarrow> (Raised err, s\<lparr>PLUGINS_TASK := done @ kv # rest\<rparr>)
      | Inr (kv', evs) \<Rightarrow> resume_plugins (done @ [kv']) rest (emit evs s))"

definition onResume :: "main \<Rightarrow> status \<times> main" where
  "onResume s =
     (let s1 = (emit [LogLine [''MAIN'', ''STATE'', [], ''RESUME'']] s)\<lparr>experiment_pause := False\<rparr>;
          s2 = emit (map TimerResume [0 ..< registeredTaskTimer s1]) s1
      in resume_plugins [] (PLUGINS_TASK s2) s2)"

subsection \<open>Priority dispatcher\<close>

definition truthy :: "pval \<Rightarrow> bool" where
  "truthy v = (case v of PBool b \<Rightarrow> b | PInt n \<Rightarrow> n \<noteq> 0 | PFloat r \<Rightarrow> r \<noteq> 0
               | PStr t \<Rightarrow> t \<noteq> [] | PNone \<Rightarrow> False | PDict d \<Rightarrow> d \<noteq> [] | POther \<Rightarrow> True)"

text \<open>\<^verbatim>\<open>current = current.get(key, None)\<close> along all keys but the last.\<close>

fun descend :: "string list \<Rightarrow> pval \<Rightarrow> pyerr + pval" where
  "descend [] current = Inr current"
| "descend (k # ks) current =
     (case current of
        PDict d \<Rightarrow> descend ks (case map_of d k of Some v \<Rightarrow> v | None \<Rightarrow> PNone)
      | _ \<Rightarrow> Inl AttributeError)"

text \<open>\<^verbatim>\<open>current[key]\<close>.\<close>

definition subscript :: "pval \<Rightarrow> string \<Rightarrow> pyerr + pval" where
  "subscript current k =
     (case current of
        PDict d \<Rightarrow> (case map_of d k of Some v \<Rightarrow> Inr v | None \<Rightarrow> Inl KeyError)
      | _ \<Rightarrow> Inl TypeError)"

text \<open>The tree after \<^verbatim>\<open>current[key] = v\<close> at the end of the path.\<close>

fun assign_at :: "string list \<Rightarrow> pval \<Rightarrow> pval \<Rightarrow> pval" where
  "assign_at [] v current = v"
| "assign_at (k # ks) v current =
     (case current of
        PDict d \<Rightarrow> PDict (AList.update k (assign_at ks v (case map_of d k of Some c \<Rightarrow> c | None \<Rightarrow> PNone)) d)
      | _ \<Rightarrow> current)"

text \<open>The type switch of \<^verbatim>\<open>setParameterVariable\<close>: the new value of the field, \<open>None\<close>
  when the field is left as it is; the boolean asks for the message box.\<close>

definition coerce :: "env \<Rightarrow> pval \<Rightarrow> string \<Rightarrow> pyerr + (pval option \<times> bool)" where
  "coerce e old v =
     (case old of
        PBool b \<Rightarrow>
          (if map lower_char v = ''true'' then Inr (Some (PBool True), False)
           else if map lower_char v = ''false'' then Inr (Some (PBool False), False)
           else Inr (None, False))
      | PInt n \<Rightarrow> (case py_int e v of None \<Rightarrow> Inl ValueError | Some m \<Rightarrow> Inr (Some (PInt m), False))
      | PFloat r \<Rightarrow> (case py_float e v of None \<Rightarrow> Inl ValueError | Some x \<Rightarrow> Inr (Some (PFloat x), False))
      | PStr t \<Rightarrow> Inr (Some (PStr v), False)
      | PNone \<Rightarrow> Inr (Some (PStr v), False)
      | _ \<Rightarrow> (case literal_eval e v of None \<Rightarrow> Inr (None, True) | Some x \<Rightarrow> Inr (Some x, False)))"

definition is_int_instance :: "pval \<Rightarrow> bool" where
  "is_int_instance v = (case v of PInt n \<Rightarrow> True | PBool b \<Rightarrow> True | _ \<Rightarrow> False)"

definition set_task_parameters :: "string \<Rightarrow> (string \<times> pval) list \<Rightarrow> main \<Rightarrow> main" where
  "set_task_parameters task ps s =
     (if task = ''__main__'' then s\<lparr>main_parameters := ps\<rparr>
      else (case map_of (PLUGINS_TASK s) task of
              None \<Rightarrow> s
            | Some p \<Rightarrow> s\<lparr>PLUGINS_TASK := AList.update task (p\<lparr>parameters := ps\<rparr>) (PLUGINS_TASK s)\<rparr>))"

text \<open>The last two branches of \<^verbatim>\<open>setParameterVariable\<close>: the label text and the update
  interval kept in \<^verbatim>\<open>PLUGINS_TASK\<close>.\<close>

definition retrieve_changes :: "env \<Rightarrow> string \<Rightarrow> string \<Rightarrow> string \<Rightarrow> pval \<Rightarrow> main \<Rightarrow> status \<times> main" where
  "retrieve_changes e task variable v field s =
     (if variable = ''title'' then
        (case map_of (PLUGINS_TASK s) task of
           None \<Rightarrow> (Raised KeyError, s)
         | Some p \<Rightarrow> if ui_label p then (Ok, emit [LabelText task v] s) else (Raised KeyError, s))
      else if variable = ''taskupdatetime'' \<and> is_int_instance field then
        (case map_of (PLUGINS_TASK s) task of
           None \<Rightarrow> (Raised KeyError, s)
         | Some p \<Rightarrow>
             (case py_int e v of
                None \<Rightarrow> (Raised ValueError, s)
              | Some n \<Rightarrow> (Ok, s\<lparr>PLUGINS_TASK := AList.update task (p\<lparr>UPDATE_TIME := Some (of_int n)\<rparr>) (PLUGINS_TASK s)\<rparr>)))
      else (Ok, s))"

definition setParameterVariable :: "env \<Rightarrow> string \<Rightarrow> string \<Rightarrow> string \<Rightarrow> main \<Rightarrow> status \<times> main" where
  "setParameterVariable e task variable v s =
     (let params = task_parameters s task
      in if params = [] then (Ok, s)
         else
           (let command = split_on CHR ''-'' variable
            in case descend (butlast command) (PDict params) of
                 Inl err \<Rightarrow> (Raised err, s)
               | Inr current \<Rightarrow>
                   (case subscript current (last command) of
                      Inl err \<Rightarrow> (Raised err, s)
                    | Inr old \<Rightarrow>
                        (case coerce e old v of
                           Inl err \<Rightarrow> (Raised err, s)
                         | Inr (new, ask) \<Rightarrow>
                             (let field = (case new of None \<Rightarrow> old | Some x \<Rightarrow> x);
                                  tree = assign_at command field (PDict params);
                                  s1 = set_task_parameters task (case tree of PDict d \<Rightarrow> d | _ \<Rightarrow> params) s
                              in and_then (if ask then showCriticalMessage e CannotEvaluate s1 else (Ok, s1))
                                   (retrieve_changes e task variable v field))))))"

text \<open>\<^verbatim>\<open>updateLabels\<close>: one loaded task.\<close>

definition update_label :: "main \<Rightarrow> string \<Rightarrow> pyerr + event list" where
  "update_label s plugin_name =
     (if plugin_name \<noteq> ''__main__'' then
        (case map_of (PLUGINS_TASK s) plugin_name of
           None \<Rightarrow> Inl KeyError
         | Some p \<Rightarrow>
             (if ui_label p then
                (if \<not> taskVisible p then Inr [LabelHide plugin_name]
                 else (case map_of (parameters p) ''title'' of
                         None \<Rightarrow> Inl KeyError
                       | Some (PStr t) \<Rightarrow> Inr [LabelText plugin_name (upper t), LabelShow plugin_name]
                       | Some _ \<Rightarrow> Inl AttributeError))
              else Inr []))
      else Inr [])"

fun updateLabels_loop :: "string list \<Rightarrow> main \<Rightarrow> status \<times> main" where
  "updateLabels_loop [] s = (Ok, s)"
| "updateLabels_loop (n # ns) s =
     (case update_label s n of
        Inl err \<Rightarrow> (Raised err, s)
      | Inr evs \<Rightarrow> updateLabels_loop ns (emit evs s))"

definition updateLabels :: "main \<Rightarrow> status \<times> main" where
  "updateLabels s = updateLabels_loop (loadedTasks s) s"

text \<open>\<^verbatim>\<open>doNetworkCommunications\<close>. The Participant collects the queued inputs of its plugins,
  sends them, and fetches the sync data (field \<open>sync_data\<close> of the tick's input); a
  \<^verbatim>\<open>terminate\<close> key in the answer runs \<^verbatim>\<open>onEnd\<close>. The other roles do nothing here.\<close>

definition pop_inputs :: "main \<Rightarrow> event list" where
  "pop_inputs s =
     concat (map (\<lambda>kv. if ''popNewInputs'' \<in> set (attrs (snd kv)) \<and> cls_is_client (snd kv)
                        then [PopNewInputs (fst kv)] else []) (PLUGINS_TASK s))"

definition doNetworkCommunications :: "tick_in \<Rightarrow> main \<Rightarrow> status \<times> main" where
  "doNetworkCommunications i s =
     (if is_client s then
        (let s1 = emit (pop_inputs s) s
         in if map_of (sync_data i) ''terminate'' \<noteq> None then onEnd (now_wall i) s1 else (Ok, s1))
      else (Ok, s))"

text \<open>The exchange of sync data for one plugin: \<^verbatim>\<open>applySyncData\<close> or a message box.\<close>

definition full_sync :: "env \<Rightarrow> tick_in \<Rightarrow> string \<Rightarrow> plugin_task \<Rightarrow> main \<Rightarrow> status \<times> main" where
  "full_sync e i plugin_name p s =
     (if is_client s \<and> map_of (sync_data i) plugin_name \<noteq> None \<and> ''applySyncData'' \<in> set (attrs p) then
        (if cls_is_client p then (Ok, emit [ApplySyncData plugin_name True] s)
         else showCriticalMessage e (SyncNotClient plugin_name) s)
      else if is_client s \<and> map_of (sync_data i) plugin_name \<noteq> None then
        showCriticalMessage e (SyncNoApply plugin_name) s
      else (Ok, s))"

text \<open>The readings of the clocks now: those of the tick, or those at the end of the last
  wait if the tick has waited in the pause barrier.\<close>

definition current :: "tick_in \<Rightarrow> main \<Rightarrow> tick_in" where
  "current i s =
     (case resumed s of None \<Rightarrow> i | Some tw \<Rightarrow> i\<lparr>now_timer := fst tw, now_wall := snd tw\<rparr>)"

text \<open>One iteration of the loop of \<^verbatim>\<open>waitEndofPause\<close>: the network exchange, and the sync
  data for the loaded plugins whose parameter \<^verbatim>\<open>NETWORK_WHILE_PAUSED\<close> is set.\<close>

definition pause_sync :: "env \<Rightarrow> tick_in \<Rightarrow> string \<Rightarrow> main \<Rightarrow> status \<times> main" where
  "pause_sync e j plugin_name s =
     (case map_of (PLUGINS_TASK s) plugin_name of
        None \<Rightarrow> (Ok, s)
      | Some p \<Rightarrow>
          (if plugin_name \<in> set (loadedTasks s)
              \<and> (case map_of (parameters p) ''NETWORK_WHILE_PAUSED'' of None \<Rightarrow> False | Some v \<Rightarrow> truthy v)
           then full_sync e j plugin_name p s else (Ok, s)))"

fun pause_syncs :: "env \<Rightarrow> tick_in \<Rightarrow> string list \<Rightarrow> main \<Rightarrow> status \<times> main" where
  "pause_syncs e j [] s = (Ok, s)"
| "pause_syncs e j (n # ns) s = and_then (pause_sync e j n s) (pause_syncs e j ns)"

fun pause_polls :: "env \<Rightarrow> tick_in list \<Rightarrow> main \<Rightarrow> status \<times> main" where
  "pause_polls e [] s = (Ok, s)"
| "pause_polls e (j # js) s =
     and_then (doNetworkCommunications j s)
       (\<lambda>s1. and_then (pause_syncs e j (map fst (PLUGINS_TASK s1)) s1) (pause_polls e js))"

text \<open>\<^verbatim>\<open>waitEndofPause\<close>. While the session is paused the coroutine runs the loop; only
  \<^verbatim>\<open>Main.onResume\<close> clears \<^verbatim>\<open>experiment_pause\<close>, and it is called from outside. With
  \<open>pauses e n = None\<close> that never happens and the model stops with \<open>Blocked\<close>; otherwise
  the loop runs its iterations, \<^verbatim>\<open>onResume\<close> is called, and the loop is left. In both cases
  the last statement restarts the measure of elapsed time.\<close>

definition waitEndofPause :: "env \<Rightarrow> tick_in \<Rightarrow> main \<Rightarrow> status \<times> main" where
  "waitEndofPause e i s =
     (if experiment_pause s then
        (case pauses e (pauses_done s) of
           None \<Rightarrow> (Blocked, s)
         | Some p \<Rightarrow>
             and_then (pause_polls e (polls p) s)
               (\<lambda>s1. and_then (onResume s1)
                  (\<lambda>s2. (Ok, s2\<lparr>last_time_microsec := resume_timer p,
                                  resumed := Some (resume_timer p, resume_wall p),
                                  pauses_done := pauses_done s2 + 1\<rparr>))))
      else (Ok, s\<lparr>last_time_microsec := now_timer (current i s)\<rparr>))"

text \<open>The flag assignments of a lifecycle command: the \<^verbatim>\<open>if/elif\<close> chain on the function
  name. Result: the entry, the calls made, and the log message.\<close>

definition lifecycle :: "string \<Rightarrow> string \<Rightarrow> plugin_task \<Rightarrow> plugin_task \<times> event list \<times> string" where
  "lifecycle functionname task p =
     (if functionname = ''onStart'' then
        (p\<lparr>taskRunning := True, taskVisible := True, taskPaused := False\<rparr>, [WidgetShow task], ''START'')
      else if functionname = ''onStop'' then
        (p\<lparr>taskRunning := False, taskPaused := True, taskVisible := False\<rparr>, [WidgetHide task], ''STOP'')
      else if functionname = ''onShow'' then
        (p\<lparr>taskVisible := True\<rparr>, [WidgetShow task], ''SHOW'')
      else if functionname = ''onHide'' then
        (p\<lparr>taskVisible := False\<rparr>, [WidgetHide task], ''HIDE'')
      else if functionname = ''onPause'' then
        (if \<not> taskPaused p then (p\<lparr>taskPaused := True\<rparr>, [], ''PAUSE'') else (p, [], []))
      else if functionname = ''onResume'' then
        (if taskPaused p then (p\<lparr>taskPaused := False\<rparr>, [], ''RESUME'') else (p, [], []))
      else (p, [], []))"

text \<open>The calls of the body of an \<^verbatim>\<open>onStart\<close> hook into \<^verbatim>\<open>Main\<close>.\<close>

fun run_callbacks :: "env \<Rightarrow> callback list \<Rightarrow> main \<Rightarrow> status \<times> main" where
  "run_callbacks e [] s = (Ok, s)"
| "run_callbacks e (c # cs) s =
     and_then (case c of CallOnPause \<Rightarrow> (Ok, onPause True s)
               | CallCritical msg \<Rightarrow> showCriticalMessage e (PluginMessage msg) s)
       (run_callbacks e cs)"

text \<open>\<^verbatim>\<open>getattr(taskclass, functionname)()\<close>. For \<^verbatim>\<open>__main__\<close> the object is \<^verbatim>\<open>Main\<close>, so
  the call runs \<^verbatim>\<open>Main.onEnd\<close>, \<^verbatim>\<open>Main.onPause\<close> or \<^verbatim>\<open>Main.onResume\<close>; for a plugin it is
  recorded, and an \<^verbatim>\<open>onStart\<close> makes its calls into \<^verbatim>\<open>Main\<close>.\<close>

definition call_hook :: "env \<Rightarrow> tick_in \<Rightarrow> string \<Rightarrow> string \<Rightarrow> main \<Rightarrow> status \<times> main" where
  "call_hook e i task functionname s =
     (if \<not> has_attr s task functionname then (Ok, s)
      else if task = ''__main__'' then
        (if functionname = ''onEnd'' then onEnd (now_wall (current i s)) s
         else if functionname = ''onPause'' then (Ok, onPause True s)
         else onResume s)
      else if functionname = ''onStart'' then
        (case map_of (PLUGINS_TASK s) task of
           None \<Rightarrow> (Ok, emit [Hook task functionname] s)
         | Some p \<Rightarrow> run_callbacks e (start_calls p) (emit [Hook task functionname] s))
      else (Ok, emit [Hook task functionname] s))"

text \<open>The body of the innermost loop of \<^verbatim>\<open>executeScenario\<close> for a command of the current
  priority.\<close>

definition exec_command :: "env \<Rightarrow> tick_in \<Rightarrow> string \<Rightarrow> entry \<Rightarrow> main \<Rightarrow> status \<times> main" where
  "exec_command e i task ent s0 =
     (let command = fst ent; s = emit [Exec task command (snd ent)] s0
      in if length command = 1 then
           (let functionname = ''on'' @ capitalize (hd command)
            in and_then
                 (if functionname \<in> set lifecycle_names then
                    (case map_of (PLUGINS_TASK s) task of
                       None \<Rightarrow> (Raised KeyError, s)
                     | Some p \<Rightarrow>
                         (case lifecycle functionname task p of
                            (p', calls, msg) \<Rightarrow>
                              and_then
                                (call_hook e i task functionname
                                   ((emit calls s)\<lparr>PLUGINS_TASK := AList.update task p' (PLUGINS_TASK s)\<rparr>))
                                (\<lambda>s1. (Ok, if msg \<noteq> [] then emit [LogLine [''MAIN'', ''STATE'', upper task, msg]] s1 else s1))))
                  else call_hook e i task functionname s)
                 (\<lambda>s2. and_then (waitEndofPause e i s2)
                    (\<lambda>s3. if (case map_of (main_parameters s3) ''showlabels'' of
                                 None \<Rightarrow> False | Some v \<Rightarrow> truthy v)
                          then updateLabels s3 else (Ok, s3))))
         else if length command < 2 then (Raised IndexError, s)
         else and_then (setParameterVariable e task (command ! 0) (command ! 1) s)
                (\<lambda>s1. (Ok, emit [LogLine [''MAIN'', ''SCENARIO'', upper task, upper (command ! 0), command ! 1]] s1)))"

text \<open>The three nested loops of \<^verbatim>\<open>executeScenario\<close>. The dictionary of the time key is
  read once per loop, as the source does; no command changes \<^verbatim>\<open>scenariocontents\<close>.\<close>

fun run_commands :: "env \<Rightarrow> tick_in \<Rightarrow> int \<Rightarrow> string \<Rightarrow> entry list \<Rightarrow> main \<Rightarrow> status \<times> main" where
  "run_commands e i cur_priority task [] s = (Ok, s)"
| "run_commands e i cur_priority task (ent # rest) s =
     (if snd ent \<noteq> cur_priority then run_commands e i cur_priority task rest s
      else and_then (exec_command e i task ent s) (run_commands e i cur_priority task rest))"

text \<open>\<^verbatim>\<open>getPluginClass\<close> raises \<^verbatim>\<open>KeyError\<close> for a task that is neither \<^verbatim>\<open>__main__\<close> nor a
  plugin.\<close>

fun run_tasks :: "env \<Rightarrow> tick_in \<Rightarrow> int \<Rightarrow> (string \<times> entry list) list \<Rightarrow> main \<Rightarrow> status \<times> main" where
  "run_tasks e i cur_priority [] s = (Ok, s)"
| "run_tasks e i cur_priority (te # rest) s =
     (if fst te \<noteq> ''__main__'' \<and> map_of (PLUGINS_TASK s) (fst te) = None then (Raised KeyError, s)
      else and_then (run_commands e i cur_priority (fst te) (snd te) s)
             (run_tasks e i cur_priority rest))"

fun run_priorities :: "env \<Rightarrow> tick_in \<Rightarrow> int list \<Rightarrow> (string \<times> entry list) list \<Rightarrow> main \<Rightarrow> status \<times> main" where
  "run_priorities e i [] tasks s = (Ok, s)"
| "run_priorities e i (cur_priority # rest) tasks s =
     and_then (run_tasks e i cur_priority tasks s) (\<lambda>s1. run_priorities e i rest tasks s1)"

text \<open>The distinct priorities used at a time key, after \<^verbatim>\<open>sort(reverse=True)\<close>.\<close>

definition gather_priorities :: "(string \<times> entry list) list \<Rightarrow> int list" where
  "gather_priorities tasks = rev (sort (remdups (map snd (concat (map snd tasks)))))"

definition executeScenario :: "env \<Rightarrow> tick_in \<Rightarrow> string \<Rightarrow> main \<Rightarrow> status \<times> main" where
  "executeScenario e i time s =
     (case map_of (scenariocontents s) time of
        None \<Rightarrow> (Ok, s)
      | Some tasks \<Rightarrow> run_priorities e i (gather_priorities tasks) tasks s)"

subsection \<open>Clock scheduler loop\<close>

text \<open>The termination test of the Host in \<^verbatim>\<open>scheduler\<close>, as the source writes it:
  \<^verbatim>\<open>self.ended_time - time.time() > 10.0\<close>.\<close>

definition host_terminates :: "tick_in \<Rightarrow> main \<Rightarrow> bool" where
  "host_terminates i s =
     (is_server s \<and>
      ((\<not> experiment_running s \<and>
          (termination_message_sent s \<or> ended_time s - now_wall i > 10))
       \<or> now_wall i - last_client_sync s > connection_timeout s))"

text \<open>The body of the loop over \<^verbatim>\<open>PLUGINS_TASK\<close> in \<^verbatim>\<open>scheduler\<close>, for one plugin name.\<close>

definition set_time_since_update :: "string \<Rightarrow> real \<Rightarrow> main \<Rightarrow> main" where
  "set_time_since_update plugin_name v s =
     (case map_of (PLUGINS_TASK s) plugin_name of
        None \<Rightarrow> s
      | Some p \<Rightarrow> s\<lparr>PLUGINS_TASK := AList.update plugin_name (p\<lparr>TIME_SINCE_UPDATE := v\<rparr>) (PLUGINS_TASK s)\<rparr>)"

definition update_plugin :: "env \<Rightarrow> tick_in \<Rightarrow> real \<Rightarrow> string \<Rightarrow> main \<Rightarrow> status \<times> main" where
  "update_plugin e i elapsed_time_ms plugin_name s =
     (if plugin_name \<in> set (loadedTasks s) then
        (case map_of (PLUGINS_TASK s) plugin_name of
           None \<Rightarrow> (Ok, s)
         | Some p \<Rightarrow>
             (case UPDATE_TIME p of
                None \<Rightarrow> (Ok, s)
              | Some u \<Rightarrow>
                  (if \<not> taskPaused p then
                     (let acc = TIME_SINCE_UPDATE p + elapsed_time_ms;
                          s1 = set_time_since_update plugin_name acc s
                      in if acc \<ge> u then
                           and_then
                             (if ''onUpdate'' \<in> set (attrs p) then (Ok, emit [Hook plugin_name ''onUpdate''] s1)
                              else showCriticalMessage e (NeedsOnUpdate plugin_name) s1)
                             (\<lambda>s2. and_then (full_sync e i plugin_name p s2)
                                (\<lambda>s3. (Ok, set_time_since_update plugin_name 0 s3)))
                         else if is_client s1 \<and> map_of (sync_data i) plugin_name \<noteq> None
                                 \<and> ''applySyncData'' \<in> set (attrs p) then
                           (if cls_is_client p then (Ok, emit [ApplySyncData plugin_name False] s1)
                            else showCriticalMessage e (SyncNotClient plugin_name) s1)
                         else (Ok, s1))
                   else (Ok, s))))
      else (Ok, s))"

fun update_plugins :: "env \<Rightarrow> tick_in \<Rightarrow> real \<Rightarrow> string list \<Rightarrow> main \<Rightarrow> status \<times> main" where
  "update_plugins e i elapsed_time_ms [] s = (Ok, s)"
| "update_plugins e i elapsed_time_ms (n # ns) s =
     and_then (update_plugin e i elapsed_time_ms n s) (update_plugins e i elapsed_time_ms ns)"

text \<open>The \<^verbatim>\<open>messagetolog\<close> parameter of \<^verbatim>\<open>Main\<close>; it is a string in every state the
  program reaches (\<^verbatim>\<open>setParameterVariable\<close> keeps the type of a string field).\<close>

definition log_message :: "main \<Rightarrow> status \<times> main" where
  "log_message s =
     (case map_of (main_parameters s) ''messagetolog'' of
        None \<Rightarrow> (Raised KeyError, s)
      | Some (PStr m) \<Rightarrow>
          (if length m > 0
           then (Ok, (emit [LogLine [''MAIN'', ''LOG'', m]] s)
                       \<lparr>main_parameters := AList.update ''messagetolog'' (PStr []) (main_parameters s)\<rparr>)
           else (Ok, s))
      | Some _ \<Rightarrow> (Raised TypeError, s))"

text \<open>\<^verbatim>\<open>"%d"\<close> and \<^verbatim>\<open>"%02d"\<close> of an integer.\<close>

definition digit_char :: "nat \<Rightarrow> char" where
  "digit_char n = ''0123456789'' ! n"

fun dec :: "nat \<Rightarrow> string" where
  "dec n = (if n < 10 then [digit_char n] else dec (n div 10) @ [digit_char (n mod 10)])"

definition fmt_d :: "int \<Rightarrow> string" where
  "fmt_d n = (if n < 0 then CHR ''-'' # dec (nat (- n)) else dec (nat n))"

definition fmt_02d :: "int \<Rightarrow> string" where
  "fmt_02d n = (let d = fmt_d n in replicate (2 - length d) CHR ''0'' @ d)"

text \<open>\<^verbatim>\<open>divmod\<close> on floats rounds the quotient down; \<^verbatim>\<open>"%d"\<close> of a float truncates it
  towards zero.\<close>

definition py_divmod :: "real \<Rightarrow> real \<Rightarrow> real \<times> real" where
  "py_divmod x y = (of_int \<lfloor>x / y\<rfloor>, x - y * of_int \<lfloor>x / y\<rfloor>)"

definition trunc :: "real \<Rightarrow> int" where
  "trunc x = (if x \<ge> 0 then \<lfloor>x\<rfloor> else \<lceil>x\<rceil>)"

text \<open>The hour, minute and second of \<^verbatim>\<open>scenarioUpdateTime\<close> and the string
  \<^verbatim>\<open>"%d:%02d:%02d" % (h, m, s)\<close>.\<close>

definition hms :: "main \<Rightarrow> real \<times> real \<times> real" where
  "hms s =
     (let ms = py_divmod (totalElapsedTime_ms s / 1000) 60;
          hm = py_divmod (fst ms) 60
      in (fst hm, snd hm, snd ms))"

definition time_key :: "main \<Rightarrow> string" where
  "time_key s =
     (case hms s of (h, m, sec) \<Rightarrow>
        fmt_d (trunc h) @ '':'' @ fmt_02d (trunc m) @ '':'' @ fmt_02d (trunc sec))"

text \<open>\<^verbatim>\<open>scenarioUpdateTime\<close>. \<open>Dispatch key\<close> marks the call of \<^verbatim>\<open>executeScenario\<close>
  (instrumentation).\<close>

definition scenarioUpdateTime :: "env \<Rightarrow> tick_in \<Rightarrow> main \<Rightarrow> status \<times> main" where
  "scenarioUpdateTime e i s =
     and_then
       (if fst (hms s) > 9 then showCriticalMessage e TimingOverflow s else (Ok, s))
       (\<lambda>s1. if Some (time_key s1) \<noteq> scenarioTimeStr s1
             then executeScenario e i (time_key s1)
                    (emit [Dispatch (time_key s1)] (s1\<lparr>scenarioTimeStr := Some (time_key s1)\<rparr>))
             else (Ok, s1))"

text \<open>\<^verbatim>\<open>scheduler\<close> after the network exchange and the termination test of the Host.\<close>

definition advance :: "env \<Rightarrow> tick_in \<Rightarrow> real \<Rightarrow> main \<Rightarrow> status \<times> main" where
  "advance e i elapsed_time_ms s =
     (if experiment_pause s \<or> \<not> experiment_running s then (Ok, s)
      else
        (let old_time = totalElapsedTime_ms s;
             s1 = (if \<not> is_client s then s\<lparr>totalElapsedTime_ms := old_time + elapsed_time_ms\<rparr>
                   else s\<lparr>totalElapsedTime_ms := host_time i\<rparr>);
             elapsed = (if \<not> is_client s then elapsed_time_ms else totalElapsedTime_ms s1 - old_time)
         in and_then (update_plugins e i elapsed (map fst (PLUGINS_TASK s1)) s1)
              (\<lambda>s2. and_then (log_message s2) (scenarioUpdateTime e i))))"

text \<open>\<^verbatim>\<open>MAIN_SCHEDULER_INTERVAL\<close>.\<close>

definition MAIN_SCHEDULER_INTERVAL :: real where
  "MAIN_SCHEDULER_INTERVAL = 1"

definition scheduler :: "env \<Rightarrow> tick_in \<Rightarrow> main \<Rightarrow> status \<times> main" where
  "scheduler e i s0 =
     (let s = s0\<lparr>resumed := None\<rparr>;
          current_time_microsec = now_timer i;
          elapsed_time_ms = (current_time_microsec - last_time_microsec s) * 1000
      in if elapsed_time_ms < MAIN_SCHEDULER_INTERVAL then (Ok, s)
         else
           and_then (doNetworkCommunications i (s\<lparr>last_time_microsec := current_time_microsec\<rparr>))
             (\<lambda>s1. and_then (if host_terminates i s1 then end_session s1 else (Ok, s1))
                (advance e i elapsed_time_ms)))"

subsection \<open>Host broker\<close>

record broker =
  window :: main
  error_counter :: int

definition remote_get_time :: "broker \<Rightarrow> real" where
  "remote_get_time b = totalElapsedTime_ms (window b)"




text \<open>\<^verbatim>\<open>remote_pass_new_input\<close>: the body of the loop for one item of \<^verbatim>\<open>new_input\<close>.\<close>

definition pass_item :: "env \<Rightarrow> string \<times> string \<Rightarrow> broker \<Rightarrow> status \<times> broker" where
  "pass_item e item b =
     (let plugin_name = fst item; input_data = snd item; w = window b
      in case map_of (PLUGINS_TASK w) plugin_name of
           Some p \<Rightarrow>
             (if ''applyNewInputs'' \<in> set (attrs p) then
                (if cls_is_server p then (Ok, b\<lparr>window := emit [ApplyNewInputs plugin_name input_data] w\<rparr>)
                 else if error_counter b > 10 then
                   (case showCriticalMessage e (InputNotServer plugin_name) w of
                      (st, w') \<Rightarrow> (st, b\<lparr>window := w'\<rparr>))
                 else (Ok, b\<lparr>error_counter := error_counter b + 1\<rparr>))
              else (case showCriticalMessage e (InputNoApply plugin_name) w of
                      (st, w') \<Rightarrow> (st, b\<lparr>window := w'\<rparr>)))
         | None \<Rightarrow>
             (case showCriticalMessage e (InputNoPlugin plugin_name) w of
                (st, w') \<Rightarrow> (st, b\<lparr>window := w'\<rparr>)))"

fun pass_items :: "env \<Rightarrow> (string \<times> string) list \<Rightarrow> broker \<Rightarrow> status \<times> broker" where
  "pass_items e [] b = (Ok, b)"
| "pass_items e (item # rest) b =
     (case pass_item e item b of
        (Ok, b') \<Rightarrow> pass_items e rest b'
      | r \<Rightarrow> r)"

definition remote_pass_new_input :: "env \<Rightarrow> (string \<times> string) list \<Rightarrow> broker \<Rightarrow> status \<times> broker" where
  "remote_pass_new_input e new_input b =
     (let counter_before = error_counter b
      in case pass_items e new_input b of
           (Ok, b') \<Rightarrow>
             (Ok, if counter_before = error_counter b' then b'\<lparr>error_counter := 0\<rparr> else b')
         | r \<Rightarrow> r)"

subsection \<open>Runs\<close>

text \<open>The main loop calls \<^verbatim>\<open>scheduler\<close> again and again; it stops with the process, with an
  exception, when the coroutine stays in the pause barrier, and when the reactor has been
  stopped.\<close>

fun run_ticks :: "env \<Rightarrow> tick_in list \<Rightarrow> main \<Rightarrow> status \<times> main" where
  "run_ticks e [] s = (Ok, s)"
| "run_ticks e (i # rest) s =
     (if \<not> reactor_running s then (Ok, s)
      else and_then (scheduler e i s) (run_ticks e rest))"




subsection \<open>Reading the trace\<close>

text \<open>The commands the dispatcher executed, the keys it was called for, the update hooks
  invoked, the inputs applied and the message boxes shown, each in order.\<close>

definition execs :: "event list \<Rightarrow> (string \<times> command \<times> int) list" where
  "execs evs = concat (map (\<lambda>ev. case ev of Exec t c p \<Rightarrow> [(t, c, p)] | _ \<Rightarrow> []) evs)"

definition dispatched :: "event list \<Rightarrow> string list" where
  "dispatched evs = concat (map (\<lambda>ev. case ev of Dispatch k \<Rightarrow> [k] | _ \<Rightarrow> []) evs)"

definition updates :: "event list \<Rightarrow> string list" where
  "updates evs =
     concat (map (\<lambda>ev. case ev of Hook t f \<Rightarrow> (if f = ''onUpdate'' then [t] else []) | _ \<Rightarrow> []) evs)"

definition applied :: "event list \<Rightarrow> (string \<times> string) list" where
  "applied evs = concat (map (\<lambda>ev. case ev of ApplyNewInputs n d \<Rightarrow> [(n, d)] | _ \<Rightarrow> []) evs)"

definition warnings :: "event list \<Rightarrow> dialog list" where
  "warnings evs = concat (map (\<lambda>ev. case ev of Dialog d \<Rightarrow> [d] | _ \<Rightarrow> []) evs)"

text \<open>What the dispatcher and the update loop leave as it is (used in the proofs).\<close>

definition frame :: "main \<Rightarrow> main \<Rightarrow> bool" where
  "frame s s' =
     (is_client s' = is_client s \<and> is_server s' = is_server s \<and>
      scenariocontents s' = scenariocontents s \<and>
      totalElapsedTime_ms s' = totalElapsedTime_ms s \<and>
      scenarioTimeStr s' = scenarioTimeStr s \<and>
      last_client_sync s' = last_client_sync s \<and>
      connection_timeout s' = connection_timeout s \<and>
      termination_message_sent s' = termination_message_sent s \<and>
      dispatched (events s') = dispatched (events s) \<and>
      (experiment_running s' \<longrightarrow> experiment_running s) \<and>
      (is_server s \<longrightarrow> reactor_running s' = reactor_running s))"

text \<open>Lists of events without marks of the dispatcher, and steps that append only such
  events (used in the proofs).\<close>

definition unmarked :: "event list \<Rightarrow> bool" where
  "unmarked evs = (execs evs = [] \<and> dispatched evs = [])"

definition inner :: "main \<Rightarrow> main \<Rightarrow> bool" where
  "inner s s' = (frame s s' \<and> (\<exists>evs. events s' = events s @ evs \<and> unmarked evs))"

text \<open>A step that executed the commands of the list \<open>sched\<close> in order: all of them when it
  returned, a prefix when it stopped early (used in the proofs).\<close>

definition ran_sched :: "main \<Rightarrow> main \<Rightarrow> status \<Rightarrow> (string \<times> command \<times> int) list \<Rightarrow> bool" where
  "ran_sched s s' st sched =
     (frame s s' \<and>
      (\<exists>dn. execs (events s') = execs (events s) @ dn \<and> prefix dn sched \<and>
            (if st = Ok then dn = sched else True)))"



text \<open>The lines of a scenario file after \<^verbatim>\<open>getCommand\<close>: (time, task, command, priority),
  and the dictionary \<^verbatim>\<open>loadScenario\<close> builds from them.\<close>

type_synonym parsed = "string \<times> string \<times> command \<times> int"

fun build :: "parsed list \<Rightarrow> scenario \<Rightarrow> pyerr + scenario" where
  "build [] sc = Inr sc"
| "build ((time, task, command, priority) # rest) sc =
     (case add_entry time task command priority sc of
        Inl err \<Rightarrow> Inl err
      | Inr sc' \<Rightarrow> build rest sc')"

text \<open>The lines for one time key, in file order, as (task, command, priority).\<close>

definition at_time :: "string \<Rightarrow> parsed list \<Rightarrow> (string \<times> command \<times> int) list" where
  "at_time t ls = map snd (filter (\<lambda>l. fst l = t) ls)"

subsection \<open>Notions used in the statements\<close>

text \<open>The string \<^verbatim>\<open>"%d:%02d:%02d"\<close> of a number of whole seconds; \<open>time_key\<close> is this
  string for the whole seconds of the virtual clock (lemma \<open>time_key_seconds\<close>).\<close>

definition key_of_seconds :: "int \<Rightarrow> string" where
  "key_of_seconds n =
     fmt_d ((n div 60) div 60) @ '':'' @ fmt_02d ((n div 60) mod 60) @ '':'' @ fmt_02d (n mod 60)"

text \<open>The end of \<^verbatim>\<open>continued_init\<close>: the first \<^verbatim>\<open>scenarioUpdateTime\<close>, the start of the
  measure of elapsed time, and the main loop.\<close>

definition session :: "env \<Rightarrow> tick_in \<Rightarrow> tick_in list \<Rightarrow> main \<Rightarrow> status \<times> main" where
  "session e i0 ticks s =
     and_then (scenarioUpdateTime e i0 s)
       (\<lambda>s1. run_ticks e ticks (s1\<lparr>last_time_microsec := now_timer (current i0 s1)\<rparr>))"

text \<open>The entry of a plugin after a session pause and the following resume.\<close>

definition after_pause :: "string \<times> plugin_task \<Rightarrow> string \<times> plugin_task" where
  "after_pause kv =
     (if fst kv \<noteq> ''__main__''
      then (fst kv, (snd kv)\<lparr>taskPaused := (taskPaused (snd kv) \<or> \<not> taskRunning (snd kv)),
                              taskPreviouslyPaused := Some (taskPaused (snd kv))\<rparr>)
      else kv)"

text \<open>The calls of \<^verbatim>\<open>Main.onResume\<close> for a plugin that was running and not paused when
  the session pause began.\<close>

definition resume_calls :: "string \<times> plugin_task \<Rightarrow> event list" where
  "resume_calls kv =
     (if fst kv \<noteq> ''__main__'' \<and> taskRunning (snd kv) \<and> \<not> taskPaused (snd kv)
      then (if ''onResume'' \<in> set (attrs (snd kv)) then [Hook (fst kv) ''onResume''] else [])
           @ (if ui_label (snd kv) then [LabelShow (fst kv)] else [])
           @ [WidgetShow (fst kv)]
      else [])"

text \<open>An item of \<^verbatim>\<open>new_input\<close> by what the Host has under its name: a plugin that takes
  the input (it exists, has \<^verbatim>\<open>applyNewInputs\<close> and is Host-authoritative), a plugin that
  could take it but is not Host-authoritative, or neither.\<close>

definition routed :: "(string \<times> plugin_task) list \<Rightarrow> string \<Rightarrow> bool" where
  "routed ps n =
     (case map_of ps n of
        Some p \<Rightarrow> ''applyNewInputs'' \<in> set (attrs p) \<and> cls_is_server p | None \<Rightarrow> False)"

definition unauthoritative :: "(string \<times> plugin_task) list \<Rightarrow> string \<Rightarrow> bool" where
  "unauthoritative ps n =
     (case map_of ps n of
        Some p \<Rightarrow> ''applyNewInputs'' \<in> set (attrs p) \<and> \<not> cls_is_server p | None \<Rightarrow> False)"

definition unroutable :: "(string \<times> plugin_task) list \<Rightarrow> string \<Rightarrow> dialog list" where
  "unroutable ps n =
     (case map_of ps n of
        Some p \<Rightarrow> (if ''applyNewInputs'' \<in> set (attrs p) then [] else [InputNoApply n])
      | None \<Rightarrow> [InputNoPlugin n])"

text \<open>What a whole tick leaves as it is (used in the proofs).\<close>

definition keeps :: "main \<Rightarrow> main \<Rightarrow> bool" where
  "keeps s s' =
     (is_client s' = is_client s \<and> is_server s' = is_server s \<and>
      scenariocontents s' = scenariocontents s \<and>
      last_client_sync s' = last_client_sync s \<and>
      connection_timeout s' = connection_timeout s \<and>
      termination_message_sent s' = termination_message_sent s \<and>
      (experiment_running s' \<longrightarrow> experiment_running s) \<and>
      (is_server s \<longrightarrow> reactor_running s' = reactor_running s))"

text \<open>The number of items of \<^verbatim>\<open>new_input\<close> for plugins that are not Host-authoritative.\<close>

definition n_unauth :: "(string \<times> plugin_task) list \<Rightarrow> (string \<times> string) list \<Rightarrow> int" where
  "n_unauth ps items = int (length (filter (\<lambda>item. unauthoritative ps (fst item)) items))"

text \<open>The message boxes for an item named \<open>n\<close> when \<open>c\<close> is the error counter plus the
  number of items before it in the call that are not Host-authoritative; and those of a
  whole call, item by item.\<close>

definition item_warnings :: "(string \<times> plugin_task) list \<Rightarrow> int \<Rightarrow> string \<Rightarrow> dialog list" where
  "item_warnings ps c n =
     unroutable ps n @ (if unauthoritative ps n \<and> c > 10 then [InputNotServer n] else [])"

definition call_warnings ::
  "(string \<times> plugin_task) list \<Rightarrow> int \<Rightarrow> (string \<times> string) list \<Rightarrow> dialog list" where
  "call_warnings ps c items =
     concat (map (\<lambda>k. item_warnings ps (c + n_unauth ps (take k items)) (fst (items ! k)))
               [0 ..< length items])"

text \<open>The fields of a line as \<^verbatim>\<open>getCommand\<close> reads them: the test on the number of
  fields, the list after the insertion of \<^verbatim>\<open>__main__\<close>, and the time, the task and the
  command taken from it (lemma \<open>getCommand_fields\<close>).\<close>

definition field_count_ok :: "string \<Rightarrow> bool" where
  "field_count_ok l =
     (1 < length (split_on CHR '';'' (strip l)) \<and> length (split_on CHR '';'' (strip l)) < 5)"

definition line_fields :: "main \<Rightarrow> string \<Rightarrow> string list" where
  "line_fields s l =
     (let lineList = split_on CHR '';'' (strip l)
      in if length lineList = 2 \<or> lineList ! 1 \<in> set (map fst (main_parameters s))
         then hd lineList # ''__main__'' # tl lineList else lineList)"

definition time_field :: "main \<Rightarrow> string \<Rightarrow> string" where
  "time_field s l = line_fields s l ! 0"

definition task_field :: "main \<Rightarrow> string \<Rightarrow> string" where
  "task_field s l = line_fields s l ! 1"

definition command_field :: "main \<Rightarrow> string \<Rightarrow> command" where
  "command_field s l =
     (let command0 = drop 2 (line_fields s l)
      in if task_field s l = ''sysmon'' \<and> hd command0 = ''feedbackduration''
         then ''feedbacks-positive-duration'' # tl command0 else command0)"

text \<open>The tests of \<^verbatim>\<open>getCommand\<close> on the task, on the time field and on a one-word
  command.\<close>

definition known_task :: "main \<Rightarrow> string \<Rightarrow> bool" where
  "known_task s task = (task = ''__main__'' \<or> map_of (PLUGINS_TASK s) task \<noteq> None)"

definition time_ok :: "string \<Rightarrow> bool" where
  "time_ok time =
     (length time = 7 \<or>
      (length (split_on CHR ''-'' time) = 2 \<and> length (split_on CHR ''-'' time ! 0) = 7
       \<and> isnumeric (split_on CHR ''-'' time ! 1)))"

definition known_verb :: "main \<Rightarrow> string \<Rightarrow> command \<Rightarrow> bool" where
  "known_verb s task command =
     (has_attr s task (''on'' @ capitalize (hd command))
      \<or> ''on'' @ capitalize (hd command) \<in> set lifecycle_names)"

text \<open>The entry of a task after a lifecycle command as the specification gives it: Start sets
  running and visible and clears paused; Stop clears running and visible and sets paused;
  Show and Hide set and clear the visible flag; Pause sets the paused flag if it is not set;
  Resume clears it if it is set.\<close>

definition transition :: "string \<Rightarrow> plugin_task \<Rightarrow> plugin_task" where
  "transition fn p =
     (if fn = ''onStart'' then p\<lparr>taskRunning := True, taskVisible := True, taskPaused := False\<rparr>
      else if fn = ''onStop'' then p\<lparr>taskRunning := False, taskPaused := True, taskVisible := False\<rparr>
      else if fn = ''onShow'' then p\<lparr>taskVisible := True\<rparr>
      else if fn = ''onHide'' then p\<lparr>taskVisible := False\<rparr>
      else if fn = ''onPause'' then (if \<not> taskPaused p then p\<lparr>taskPaused := True\<rparr> else p)
      else if fn = ''onResume'' then (if taskPaused p then p\<lparr>taskPaused := False\<rparr> else p)
      else p)"

text \<open>How often the \<^verbatim>\<open>onStart\<close> of a plugin calls \<^verbatim>\<open>Main.onPause\<close>, whether the hook \<open>fn\<close> of
  the plugin pauses the session, and the entries after \<^verbatim>\<open>Main.onPause()\<close>.\<close>

definition n_pauses :: "plugin_task \<Rightarrow> nat" where
  "n_pauses p = length (filter (\<lambda>c. c = CallOnPause) (start_calls p))"

definition pauses_session :: "string \<Rightarrow> plugin_task \<Rightarrow> bool" where
  "pauses_session fn p = (fn = ''onStart'' \<and> ''onStart'' \<in> set (attrs p) \<and> 0 < n_pauses p)"

definition session_paused :: "(string \<times> plugin_task) list \<Rightarrow> (string \<times> plugin_task) list" where
  "session_paused ps = map (\<lambda>kv. fst (pause_plugin True kv)) ps"

text \<open>The update-time accumulators of all plugins.\<close>

definition accumulators :: "main \<Rightarrow> (string \<times> real) list" where
  "accumulators s = map (\<lambda>kv. (fst kv, TIME_SINCE_UPDATE (snd kv))) (PLUGINS_TASK s)"

text \<open>Steps that leave the plugins, the pause flag and the lists of \<^verbatim>\<open>Main\<close> as they are
  and call no \<^verbatim>\<open>onUpdate\<close> (used in the proofs).\<close>

definition still :: "main \<Rightarrow> main \<Rightarrow> bool" where
  "still s s' =
     (PLUGINS_TASK s' = PLUGINS_TASK s \<and> experiment_pause s' = experiment_pause s \<and>
      loadedTasks s' = loadedTasks s \<and> main_parameters s' = main_parameters s \<and>
      pauses_done s' = pauses_done s \<and> registeredTaskTimer s' = registeredTaskTimer s \<and>
      (\<exists>evs. events s' = events s @ evs \<and> updates evs = []))"

subsection \<open>Example session\<close>

text \<open>An environment in which every message box is ignored and \<^verbatim>\<open>int\<close> reads ASCII
  digits, and a session with two plugins.\<close>

definition example_env :: env where
  "example_env = \<lparr>answers = (\<lambda>n. False), answered_at = (\<lambda>n. 0), pauses = (\<lambda>n. None),
                   py_int = int_of_digits,
                   py_float = (\<lambda>v. None), literal_eval = (\<lambda>v. None)\<rparr>"

definition example_plugin :: "string list \<Rightarrow> real option \<Rightarrow> plugin_task" where
  "example_plugin as u =
     \<lparr>attrs = as, cls_is_server = False, cls_is_client = False,
      parameters = [(''title'', PStr ''task''), (''taskupdatetime'', PInt 20)],
      taskRunning = False, taskPaused = False, taskVisible = False,
      taskPreviouslyPaused = None, UPDATE_TIME = u, TIME_SINCE_UPDATE = 0, ui_label = False,
      start_calls = []\<rparr>"

definition example_main :: main where
  "example_main =
     \<lparr>is_client = False, is_server = False, am_connected = False,
      main_parameters = [(''showlabels'', PBool True), (''allowescape'', PBool True),
                         (''messagetolog'', PStr []), (''allowaltf4'', PBool True)],
      PLUGINS_TASK = [(''track'', example_plugin [''onStart'', ''onUpdate'', ''applyNewInputs''] (Some 20)),
                      (''sysmon'', example_plugin [''onUpdate''] (Some 200))],
      loadedTasks = [], scenariocontents = [], scenarioTimeStr = None,
      totalElapsedTime_ms = 0, last_time_microsec = 0, last_client_sync = 0,
      connection_timeout = 5, experiment_pause = False, experiment_running = True,
      termination_message_sent = False, ended_time = 0, registeredTaskTimer = 0,
      reactor_running = True, dialogs_shown = 0, pauses_done = 0, resumed = None, events = []\<rparr>"

definition example_host :: main where
  "example_host = example_main\<lparr>is_server := True\<rparr>"


text \<open>The same session with \<^verbatim>\<open>track\<close> started and \<^verbatim>\<open>sysmon\<close> paused on its own, and
  the broker of the Host.\<close>

definition example_started :: main where
  "example_started =
     example_main
       \<lparr>PLUGINS_TASK :=
          [(''track'', (example_plugin [''onStart'', ''onUpdate'', ''applyNewInputs''] (Some 20))
                         \<lparr>taskRunning := True, taskVisible := True\<rparr>),
           (''sysmon'', (example_plugin [''onUpdate''] (Some 200))\<lparr>taskPaused := True\<rparr>)],
        loadedTasks := [''track'', ''sysmon'', ''__main__'']\<rparr>"

definition example_broker :: "int \<Rightarrow> broker" where
  "example_broker n = \<lparr>window = example_host, error_counter = n\<rparr>"

text \<open>A broker whose Host has a Host-authoritative \<^verbatim>\<open>track\<close>, a \<^verbatim>\<open>resman\<close> that is not, and
  a \<^verbatim>\<open>sysmon\<close> without \<^verbatim>\<open>applyNewInputs\<close>; ten errors have been counted.\<close>

definition example_routing :: broker where
  "example_routing =
     \<lparr>window = example_host
        \<lparr>PLUGINS_TASK :=
           [(''track'', (example_plugin [''onStart'', ''onUpdate'', ''applyNewInputs''] (Some 20))
                          \<lparr>cls_is_server := True\<rparr>),
            (''resman'', example_plugin [''onUpdate'', ''applyNewInputs''] (Some 2000)),
            (''sysmon'', example_plugin [''onUpdate''] (Some 200))]\<rparr>,
      error_counter = 10\<rparr>"



text \<open>The session at its start with a scenario that names \<^verbatim>\<open>track\<close>: the plugin is loaded,
  not yet started and not paused.\<close>

definition example_loaded :: main where
  "example_loaded = example_main\<lparr>loadedTasks := [''track'', ''__main__'']\<rparr>"

text \<open>A session with the plugin \<^verbatim>\<open>instruction\<close>, whose \<^verbatim>\<open>onStart\<close> calls \<^verbatim>\<open>Main.onPause\<close>, and
  a scenario that starts it at once and \<^verbatim>\<open>track\<close> five seconds later; the same session with
  an \<^verbatim>\<open>onStart\<close> that does not pause; and an environment in which the first wait of the pause
  barrier ends after 500 seconds.\<close>

definition example_instructed :: main where
  "example_instructed =
     example_main
       \<lparr>PLUGINS_TASK :=
          [(''track'', example_plugin [''onStart'', ''onUpdate'', ''applyNewInputs''] (Some 20)),
           (''instruction'', (example_plugin [''onStart'', ''onUpdate''] None)
                               \<lparr>start_calls := [CallOnPause]\<rparr>)],
        loadedTasks := [''instruction'', ''track'', ''__main__''],
        scenariocontents :=
          [(''0:00:00'', [(''instruction'', [([''start''], 0)])]),
           (''0:00:05'', [(''track'', [([''start''], 0)])]),
           (''0:00:09'', [(''__main__'', [([''end''], 0)])])]\<rparr>"

definition example_uninstructed :: main where
  "example_uninstructed =
     example_instructed
       \<lparr>PLUGINS_TASK :=
          [(''track'', example_plugin [''onStart'', ''onUpdate'', ''applyNewInputs''] (Some 20)),
           (''instruction'', example_plugin [''onStart'', ''onUpdate''] None)]\<rparr>"

definition example_resuming :: env where
  "example_resuming =
     example_env\<lparr>pauses := (\<lambda>n. if n = 0 then Some \<lparr>polls = [], resume_timer = 500, resume_wall = 500\<rparr>
                                else None)\<rparr>"

section \<open>Proofs\<close>

subsection \<open>The event trace\<close>

lemma emit_emit: "emit a (emit b s) = emit (b @ a) s"
  by (simp add: emit_def)

lemma emit_fields [simp]:
  "PLUGINS_TASK (emit es s) = PLUGINS_TASK s"
  "events (emit es s) = events s @ es"
  "loadedTasks (emit es s) = loadedTasks s"
  "main_parameters (emit es s) = main_parameters s"
  "experiment_pause (emit es s) = experiment_pause s"
  "experiment_running (emit es s) = experiment_running s"
  "totalElapsedTime_ms (emit es s) = totalElapsedTime_ms s"
  "scenarioTimeStr (emit es s) = scenarioTimeStr s"
  "scenariocontents (emit es s) = scenariocontents s"
  "is_client (emit es s) = is_client s"
  "is_server (emit es s) = is_server s"
  "dialogs_shown (emit es s) = dialogs_shown s"
  "registeredTaskTimer (emit es s) = registeredTaskTimer s"
  "pauses_done (emit es s) = pauses_done s"
  "resumed (emit es s) = resumed s"
  "last_time_microsec (emit es s) = last_time_microsec s"
  by (simp_all add: emit_def)

lemma emit_Nil [simp]: "emit [] s = s"
  by (simp add: emit_def)

lemma lifecycle_attrs: "attrs (fst (lifecycle fn task p)) = attrs p"
  by (simp add: lifecycle_def)

lemma lifecycle_calls_no_hook: "Hook t f \<notin> set (fst (snd (lifecycle fn task p)))"
  by (simp add: lifecycle_def)

lemma map_of_update_same: "map_of (AList.update k v al) k = Some v"
  by (simp add: update_conv')

lemma execs_simps [simp]:
  "execs [] = []" "execs (a @ b) = execs a @ execs b"
  "execs (Exec t c p # evs) = (t, c, p) # execs evs"
  "execs (Dialog d # evs) = execs evs" "execs (Dispatch k # evs) = execs evs"
  "execs (Hook t f # evs) = execs evs" "execs (WidgetShow t # evs) = execs evs"
  "execs (WidgetHide t # evs) = execs evs" "execs (LabelShow t # evs) = execs evs"
  "execs (LabelHide t # evs) = execs evs" "execs (LabelText t x # evs) = execs evs"
  "execs (LogLine l # evs) = execs evs" "execs (TimerPause n # evs) = execs evs"
  "execs (TimerResume n # evs) = execs evs" "execs (PopNewInputs t # evs) = execs evs"
  "execs (ApplySyncData t fl # evs) = execs evs" "execs (ApplyNewInputs t x # evs) = execs evs"
  "execs (WindowClose # evs) = execs evs"
  by (simp_all add: execs_def)

lemma dispatched_simps [simp]:
  "dispatched [] = []" "dispatched (a @ b) = dispatched a @ dispatched b"
  "dispatched (Exec t c p # evs) = dispatched evs"
  "dispatched (Dialog d # evs) = dispatched evs" "dispatched (Dispatch k # evs) = k # dispatched evs"
  "dispatched (Hook t f # evs) = dispatched evs" "dispatched (WidgetShow t # evs) = dispatched evs"
  "dispatched (WidgetHide t # evs) = dispatched evs" "dispatched (LabelShow t # evs) = dispatched evs"
  "dispatched (LabelHide t # evs) = dispatched evs" "dispatched (LabelText t x # evs) = dispatched evs"
  "dispatched (LogLine l # evs) = dispatched evs" "dispatched (TimerPause n # evs) = dispatched evs"
  "dispatched (TimerResume n # evs) = dispatched evs" "dispatched (PopNewInputs t # evs) = dispatched evs"
  "dispatched (ApplySyncData t fl # evs) = dispatched evs" "dispatched (ApplyNewInputs t x # evs) = dispatched evs"
  "dispatched (WindowClose # evs) = dispatched evs"
  by (simp_all add: dispatched_def)

lemma updates_simps [simp]:
  "updates [] = []" "updates (a @ b) = updates a @ updates b"
  "updates (Exec t c p # evs) = updates evs"
  "updates (Dialog d # evs) = updates evs" "updates (Dispatch k # evs) = updates evs"
  "updates (Hook t f # evs) = (if f = ''onUpdate'' then [t] else []) @ updates evs"
  "updates (WidgetShow t # evs) = updates evs"
  "updates (WidgetHide t # evs) = updates evs" "updates (LabelShow t # evs) = updates evs"
  "updates (LabelHide t # evs) = updates evs" "updates (LabelText t x # evs) = updates evs"
  "updates (LogLine l # evs) = updates evs" "updates (TimerPause n # evs) = updates evs"
  "updates (TimerResume n # evs) = updates evs" "updates (PopNewInputs t # evs) = updates evs"
  "updates (ApplySyncData t fl # evs) = updates evs" "updates (ApplyNewInputs t x # evs) = updates evs"
  "updates (WindowClose # evs) = updates evs"
  by (simp_all add: updates_def)

lemma unmarked_simps [simp]:
  "unmarked []" "unmarked (a @ b) = (unmarked a \<and> unmarked b)"
  "unmarked (Dialog d # evs) = unmarked evs"
  "unmarked (Hook t f # evs) = unmarked evs" "unmarked (WidgetShow t # evs) = unmarked evs"
  "unmarked (WidgetHide t # evs) = unmarked evs" "unmarked (LabelShow t # evs) = unmarked evs"
  "unmarked (LabelHide t # evs) = unmarked evs" "unmarked (LabelText t x # evs) = unmarked evs"
  "unmarked (LogLine l # evs) = unmarked evs" "unmarked (TimerPause n # evs) = unmarked evs"
  "unmarked (TimerResume n # evs) = unmarked evs" "unmarked (PopNewInputs t # evs) = unmarked evs"
  "unmarked (ApplySyncData t fl # evs) = unmarked evs" "unmarked (ApplyNewInputs t x # evs) = unmarked evs"
  "unmarked (WindowClose # evs) = unmarked evs"
  by (auto simp: unmarked_def)

lemma unmarked_dispatched: "unmarked evs \<Longrightarrow> dispatched evs = []"
  by (simp add: unmarked_def)

lemma unmarked_execs: "unmarked evs \<Longrightarrow> execs evs = []"
  by (simp add: unmarked_def)

declare unmarked_dispatched [simp] unmarked_execs [simp]

lemma unmarked_concat: "(\<And>x. x \<in> set xss \<Longrightarrow> unmarked x) \<Longrightarrow> unmarked (concat xss)"
  by (induction xss) auto

lemma unmarked_map_timer [simp]: "unmarked (map TimerPause ns)" "unmarked (map TimerResume ns)"
  by (induction ns) auto

lemma frame_refl [simp]: "frame s s"
  by (simp add: frame_def)

lemma frame_trans: "frame a b \<Longrightarrow> frame b c \<Longrightarrow> frame a c"
  by (auto simp: frame_def)

lemma inner_refl [simp]: "inner s s"
  by (auto simp: inner_def intro: exI[of _ "[]"])

lemma inner_trans: "inner a b \<Longrightarrow> inner b c \<Longrightarrow> inner a c"
  unfolding inner_def
proof (elim conjE exE, intro conjI)
  fix e1 e2
  assume "frame a b" "frame b c" then show "frame a c" by (rule frame_trans)
next
  fix e1 e2
  assume "events b = events a @ e1" "unmarked e1" "events c = events b @ e2" "unmarked e2"
  then show "\<exists>evs. events c = events a @ evs \<and> unmarked evs"
    by (intro exI[of _ "e1 @ e2"]) simp
qed



lemma inner_emit: "unmarked evs \<Longrightarrow> inner s (emit evs s)"
  by (auto simp: inner_def frame_def emit_def)

lemma and_then_inner:
  assumes "and_then r f = (st, s')" "inner s (snd r)"
    and "\<And>a st' s''. f a = (st', s'') \<Longrightarrow> inner a s''"
  shows "inner s s'"
proof (cases r)
  case (Pair st0 s0)
  show ?thesis
  proof (cases "st0 = Ok")
    case True
    with Pair assms(1) have "f s0 = (st, s')" by (simp add: and_then_def)
    from assms(3)[OF this] assms(2) Pair show ?thesis by (auto intro: inner_trans)
  next
    case False
    with Pair assms(1) have "s' = s0" by (cases st0) (auto simp: and_then_def)
    with assms(2) Pair show ?thesis by simp
  qed
qed

lemma and_then_frame:
  assumes "and_then r f = (st, s')" "frame s (snd r)"
    and "\<And>a st' s''. f a = (st', s'') \<Longrightarrow> frame a s''"
  shows "frame s s'"
proof (cases r)
  case (Pair st0 s0)
  show ?thesis
  proof (cases "st0 = Ok")
    case True
    with Pair assms(1) have "f s0 = (st, s')" by (simp add: and_then_def)
    from assms(3)[OF this] assms(2) Pair show ?thesis by (auto intro: frame_trans)
  next
    case False
    with Pair assms(1) have "s' = s0" by (cases st0) (auto simp: and_then_def)
    with assms(2) Pair show ?thesis by simp
  qed
qed

lemma plugin_hooks_unmarked [simp]: "unmarked (plugin_hooks n s)"
  unfolding plugin_hooks_def by (rule unmarked_concat) auto

lemma end_session_inner: "\<not> is_server s \<Longrightarrow> end_session s = (st, s') \<Longrightarrow> inner s s'"
  by (auto simp: end_session_def Let_def inner_def frame_def emit_def split: if_splits)

lemma onEnd_inner: "onEnd i s = (st, s') \<Longrightarrow> inner s s'"
  by (auto simp: onEnd_def end_session_def Let_def inner_def frame_def emit_def split: if_splits
           intro: exI[of _ "[]"])

lemma showCriticalMessage_inner: "showCriticalMessage e d s = (st, s') \<Longrightarrow> inner s s'"
proof -
  assume a: "showCriticalMessage e d s = (st, s')"
  define s1 where "s1 = (emit [Dialog d] s)\<lparr>dialogs_shown := dialogs_shown s + 1\<rparr>"
  have 1: "inner s s1" by (auto simp: s1_def inner_def frame_def emit_def)
  show ?thesis
  proof (cases "answers e (dialogs_shown s)")
    case True
    with a have "s' = snd (onEnd (answered_at e (dialogs_shown s)) s1)"
      by (simp add: showCriticalMessage_def Let_def s1_def)
    moreover have "inner s1 (snd (onEnd (answered_at e (dialogs_shown s)) s1))"
      by (rule onEnd_inner[OF surjective_pairing])
    ultimately show ?thesis using 1 by (blast intro: inner_trans)
  next
    case False
    with a have "s' = s1" by (simp add: showCriticalMessage_def Let_def s1_def)
    with 1 show ?thesis by simp
  qed
qed

lemma pause_plugin_unmarked: "unmarked (snd (pause_plugin h kv))"
  by (simp add: pause_plugin_def Let_def)

lemma onPause_inner: "inner s (onPause h s)"
proof -
  have "unmarked (concat (map snd (map (pause_plugin h) (PLUGINS_TASK s))))"
    by (rule unmarked_concat) (auto simp: pause_plugin_unmarked)
  then show ?thesis
    by (auto simp: onPause_def Let_def inner_def frame_def emit_def)
qed

lemma resume_plugin_unmarked: "resume_plugin kv = Inr (kv', evs) \<Longrightarrow> unmarked evs"
  by (auto simp: resume_plugin_def Let_def split: if_splits option.splits)

lemma resume_plugins_inner: "resume_plugins dn ps s = (st, s') \<Longrightarrow> inner s s'"
proof (induction ps arbitrary: dn s)
  case Nil
  then show ?case by (auto simp: inner_def frame_def intro: exI[of _ "[]"])
next
  case (Cons kv ps)
  show ?case
  proof (cases "resume_plugin kv")
    case (Inl err)
    with Cons.prems show ?thesis by (auto simp: inner_def frame_def intro: exI[of _ "[]"])
  next
    case (Inr r)
    obtain kv' evs where r: "r = (kv', evs)" by (cases r)
    with Inr Cons.prems have "resume_plugins (dn @ [kv']) ps (emit evs s) = (st, s')" by simp
    from Cons.IH[OF this] inner_emit[OF resume_plugin_unmarked[OF Inr[unfolded r]], of s]
    show ?thesis by (rule inner_trans[rotated])
  qed
qed

lemma onResume_inner: "onResume s = (st, s') \<Longrightarrow> inner s s'"
proof -
  assume a: "onResume s = (st, s')"
  define s2 where "s2 = emit (map TimerResume [0 ..< registeredTaskTimer s])
       ((emit [LogLine [''MAIN'', ''STATE'', [], ''RESUME'']] s)\<lparr>experiment_pause := False\<rparr>)"
  have "inner s s2"
    by (auto simp: s2_def inner_def frame_def emit_def)
  moreover from a have "resume_plugins [] (PLUGINS_TASK s2) s2 = (st, s')"
    by (simp add: onResume_def Let_def s2_def)
  ultimately show ?thesis by (blast intro: inner_trans resume_plugins_inner)
qed

lemma and_then_inner':
  assumes "inner s (snd r)" and "\<And>a. inner a (snd (f a))"
  shows "inner s (snd (and_then r f))"
  by (rule and_then_inner[OF surjective_pairing assms(1)]) (use assms(2) in \<open>metis snd_conv\<close>)

lemmas showCriticalMessage_inner' = showCriticalMessage_inner[OF surjective_pairing]
lemmas onEnd_inner' = onEnd_inner[OF surjective_pairing]
lemmas onResume_inner' = onResume_inner[OF surjective_pairing]

lemma full_sync_inner': "inner s (snd (full_sync e i n p s))"
  by (simp add: full_sync_def showCriticalMessage_inner' inner_emit)

lemma doNetworkCommunications_inner': "inner s (snd (doNetworkCommunications i s))"
proof -
  have "unmarked (pop_inputs s)"
    unfolding pop_inputs_def by (rule unmarked_concat) auto
  then have "inner s (emit (pop_inputs s) s)" by (rule inner_emit)
  then show ?thesis
    by (auto simp: doNetworkCommunications_def Let_def intro: inner_trans[OF _ onEnd_inner'])
qed

lemma pause_sync_inner': "inner s (snd (pause_sync e j n s))"
  by (simp add: pause_sync_def full_sync_inner' split: option.splits)

lemma pause_syncs_inner': "inner s (snd (pause_syncs e j ns s))"
proof (induction ns arbitrary: s)
  case Nil
  show ?case by simp
next
  case (Cons n ns)
  show ?case using Cons.IH by (simp, intro and_then_inner' pause_sync_inner')
qed

lemma pause_polls_inner': "inner s (snd (pause_polls e js s))"
proof (induction js arbitrary: s)
  case Nil
  show ?case by simp
next
  case (Cons j js)
  show ?case using Cons.IH
    by (simp, intro and_then_inner' doNetworkCommunications_inner' pause_syncs_inner')
qed

lemma run_callbacks_inner': "inner s (snd (run_callbacks e cs s))"
proof (induction cs arbitrary: s)
  case Nil
  show ?case by simp
next
  case (Cons c cs)
  have "inner s (snd (case c of CallOnPause \<Rightarrow> (Ok, onPause True s)
               | CallCritical msg \<Rightarrow> showCriticalMessage e (PluginMessage msg) s))"
    by (cases c) (simp_all add: onPause_inner showCriticalMessage_inner')
  then show ?case using Cons.IH by (simp, intro and_then_inner')
qed

lemma call_hook_inner': "inner s (snd (call_hook e i task fn s))"
proof -
  have h: "inner s (emit [Hook task fn] s)" by (rule inner_emit) simp
  have "\<And>p. inner s (snd (run_callbacks e (start_calls p) (emit [Hook task fn] s)))"
    by (rule inner_trans[OF h run_callbacks_inner'])
  with h show ?thesis
    by (auto simp: call_hook_def onEnd_inner' onPause_inner onResume_inner' split: option.splits)
qed

lemma call_hook_inner: "call_hook e i task fn s = (st, s') \<Longrightarrow> inner s s'"
  using call_hook_inner'[of s e i task fn] by simp

lemma resume_mark_inner:
  "inner s2 (s2\<lparr>last_time_microsec := t, resumed := r, pauses_done := n\<rparr>)"
  by (auto simp: inner_def frame_def intro: exI[of _ "[]"])

lemma waitEndofPause_inner': "inner s (snd (waitEndofPause e i s))"
proof (cases "experiment_pause s")
  case False
  then show ?thesis
    by (auto simp: waitEndofPause_def inner_def frame_def intro: exI[of _ "[]"])
next
  case True
  show ?thesis
  proof (cases "pauses e (pauses_done s)")
    case None
    with True show ?thesis by (simp add: waitEndofPause_def)
  next
    case (Some p)
    have "inner s (snd (and_then (pause_polls e (polls p) s)
               (\<lambda>s1. and_then (onResume s1)
                  (\<lambda>s2. (Ok, s2\<lparr>last_time_microsec := resume_timer p,
                                  resumed := Some (resume_timer p, resume_wall p),
                                  pauses_done := pauses_done s2 + 1\<rparr>)))))"
      by (intro and_then_inner' pause_polls_inner' onResume_inner') (simp add: resume_mark_inner)
    with True Some show ?thesis by (simp add: waitEndofPause_def)
  qed
qed

lemma waitEndofPause_inner: "waitEndofPause e i s = (st, s') \<Longrightarrow> inner s s'"
  using waitEndofPause_inner'[of s e i] by simp














lemma ran_nil [simp]: "ran_sched s s Ok []"
  by (simp add: ran_sched_def)





















section \<open>C9\<close>

lemma resume_plugins_all:
  assumes "\<forall>kv \<in> set ps. \<exists>r. resume_plugin kv = Inr r"
  shows "resume_plugins dn ps s =
           (Ok, (emit (concat (map (\<lambda>kv. snd (projr (resume_plugin kv))) ps)) s)
                  \<lparr>PLUGINS_TASK := dn @ map (\<lambda>kv. fst (projr (resume_plugin kv))) ps\<rparr>)"
  using assms
proof (induction ps arbitrary: dn s)
  case Nil
  then show ?case by simp
next
  case (Cons kv ps)
  then obtain kv' evs where r: "resume_plugin kv = Inr (kv', evs)" by fastforce
  with Cons show ?case by (simp add: emit_emit emit_def)
qed

lemma resume_after_pause:
  "resume_plugin (fst (pause_plugin h kv)) = Inr (after_pause kv, resume_calls kv)"
  by (cases kv) (auto simp: resume_plugin_def pause_plugin_def after_pause_def resume_calls_def Let_def)

lemma PLUGINS_TASK_onPause: "PLUGINS_TASK (onPause h s) = map (\<lambda>kv. fst (pause_plugin h kv)) (PLUGINS_TASK s)"
  by (simp add: onPause_def Let_def comp_def)

text \<open>
  Claim C9. \<^verbatim>\<open>Main.onPause\<close> records the paused flag of every plugin in
  \<^verbatim>\<open>taskPreviouslyPaused\<close> and pauses it. The \<^verbatim>\<open>Main.onResume\<close> that follows returns
  normally and clears the paused flag exactly for the plugins that were running and not
  paused when the pause began; for exactly those, in the order of \<^verbatim>\<open>PLUGINS_TASK\<close>, it calls
  the \<^verbatim>\<open>onResume\<close> hook (if defined), shows the label (if any) and shows the plugin. A plugin
  that was paused before stays paused.
\<close>

theorem C9_pause_then_resume:
  "PLUGINS_TASK (onPause hide_ui s) =
      map (\<lambda>kv. if fst kv \<noteq> ''__main__''
                 then (fst kv, (snd kv)\<lparr>taskPreviouslyPaused := Some (taskPaused (snd kv)),
                                         taskPaused := True\<rparr>)
                 else kv) (PLUGINS_TASK s)
   \<and> fst (onResume (onPause hide_ui s)) = Ok
   \<and> PLUGINS_TASK (snd (onResume (onPause hide_ui s))) = map after_pause (PLUGINS_TASK s)
   \<and> events (snd (onResume (onPause hide_ui s))) =
       events (onPause hide_ui s)
       @ LogLine [''MAIN'', ''STATE'', [], ''RESUME'']
       # map TimerResume [0 ..< registeredTaskTimer s]
       @ concat (map resume_calls (PLUGINS_TASK s))"
proof -
  define s2 where "s2 = emit (map TimerResume [0 ..< registeredTaskTimer s])
       ((emit [LogLine [''MAIN'', ''STATE'', [], ''RESUME'']] (onPause hide_ui s))\<lparr>experiment_pause := False\<rparr>)"
  have rt: "registeredTaskTimer (onPause hide_ui s) = registeredTaskTimer s"
    by (simp add: onPause_def Let_def)
  have pt: "PLUGINS_TASK s2 = map (\<lambda>kv. fst (pause_plugin hide_ui kv)) (PLUGINS_TASK s)"
    by (simp add: s2_def PLUGINS_TASK_onPause)
  have on: "onResume (onPause hide_ui s) = resume_plugins [] (PLUGINS_TASK s2) s2"
    by (simp add: onResume_def Let_def s2_def rt)
  have all: "\<forall>kv \<in> set (PLUGINS_TASK s2). \<exists>r. resume_plugin kv = Inr r"
    by (auto simp: pt resume_after_pause)
  have r: "onResume (onPause hide_ui s) =
        (Ok, (emit (concat (map resume_calls (PLUGINS_TASK s))) s2)
                  \<lparr>PLUGINS_TASK := map after_pause (PLUGINS_TASK s)\<rparr>)"
    unfolding on resume_plugins_all[OF all]
    by (simp add: pt comp_def resume_after_pause)
  have p1: "PLUGINS_TASK (onPause hide_ui s) =
      map (\<lambda>kv. if fst kv \<noteq> ''__main__''
                 then (fst kv, (snd kv)\<lparr>taskPreviouslyPaused := Some (taskPaused (snd kv)),
                                         taskPaused := True\<rparr>)
                 else kv) (PLUGINS_TASK s)"
    unfolding PLUGINS_TASK_onPause
    by (rule map_cong[OF refl]) (auto simp: pause_plugin_def Let_def)
  show ?thesis using p1 by (simp add: r s2_def)
qed

theorem C9_pause_then_resume_witness:
  "map (\<lambda>kv. (fst kv, taskPaused (snd kv)))
      (PLUGINS_TASK (snd (onResume (onPause True example_started)))) =
     [(''track'', False), (''sysmon'', True)]
   \<and> drop (length (events (onPause True example_started)))
        (events (snd (onResume (onPause True example_started)))) =
     [LogLine [''MAIN'', ''STATE'', [], ''RESUME''], WidgetShow ''track'']"
  using C9_pause_then_resume[of True example_started]
  by (simp add: example_started_def example_main_def example_plugin_def after_pause_def
                resume_calls_def)

section \<open>C2\<close>

lemma applied_simps [simp]:
  "applied [] = []" "applied (a @ b) = applied a @ applied b"
  "applied [ApplyNewInputs n d] = [(n, d)]" "applied [Dialog x] = []"
  by (simp_all add: applied_def)

lemma warnings_simps [simp]:
  "warnings [] = []" "warnings (a @ b) = warnings a @ warnings b"
  "warnings [ApplyNewInputs n d] = []" "warnings [Dialog x] = [x]"
  by (simp_all add: warnings_def)

lemma showCriticalMessage_Ok:
  "showCriticalMessage e d w = (Ok, w') \<Longrightarrow>
     PLUGINS_TASK w' = PLUGINS_TASK w \<and> events w' = events w @ [Dialog d]"
  by (auto simp: showCriticalMessage_def Let_def split: if_splits)

text \<open>One item.\<close>

lemma pass_item_Ok:
  assumes "pass_item e (n, d) b = (Ok, b')"
  shows "PLUGINS_TASK (window b') = PLUGINS_TASK (window b)
       \<and> applied (events (window b')) =
           applied (events (window b)) @ (if routed (PLUGINS_TASK (window b)) n then [(n, d)] else [])
       \<and> error_counter b' =
           (if unauthoritative (PLUGINS_TASK (window b)) n \<and> error_counter b \<le> 10
            then error_counter b + 1 else error_counter b)
       \<and> warnings (events (window b')) =
           warnings (events (window b)) @ unroutable (PLUGINS_TASK (window b)) n
           @ (if unauthoritative (PLUGINS_TASK (window b)) n \<and> error_counter b > 10
              then [InputNotServer n] else [])"
proof (cases "map_of (PLUGINS_TASK (window b)) n")
  case None
  with assms show ?thesis
    by (auto simp: pass_item_def Let_def routed_def unauthoritative_def unroutable_def
             split: prod.splits dest!: showCriticalMessage_Ok)
next
  case (Some p)
  with assms show ?thesis
    by (auto simp: pass_item_def Let_def routed_def unauthoritative_def unroutable_def
             split: prod.splits if_splits dest!: showCriticalMessage_Ok)
qed

lemma n_unauth_nonneg: "0 \<le> n_unauth ps items"
  by (simp add: n_unauth_def)

lemma n_unauth_Cons:
  "n_unauth ps (item # items) = (if unauthoritative ps (fst item) then 1 else 0) + n_unauth ps items"
  by (simp add: n_unauth_def)

lemma call_warnings_Nil [simp]: "call_warnings ps c [] = []"
  by (simp add: call_warnings_def)

lemma call_warnings_Cons:
  "call_warnings ps c (item # items) =
     item_warnings ps c (fst item)
     @ call_warnings ps (c + (if unauthoritative ps (fst item) then 1 else 0)) items"
proof -
  have "[0 ..< length (item # items)] = 0 # map Suc [0 ..< length items]"
    by (simp only: list.size map_Suc_upt) (simp add: upt_conv_Cons del: upt_Suc)
  then show ?thesis
    by (simp add: call_warnings_def n_unauth_Cons n_unauth_def o_def add.assoc del: upt_Suc)
qed

text \<open>Beyond 10 the exact value of the counter does not matter.\<close>

lemma item_warnings_beyond: "c > 10 \<Longrightarrow> c' > 10 \<Longrightarrow> item_warnings ps c n = item_warnings ps c' n"
  by (simp add: item_warnings_def)

lemma call_warnings_beyond:
  "c > 10 \<Longrightarrow> c' > 10 \<Longrightarrow> call_warnings ps c items = call_warnings ps c' items"
proof -
  assume a: "c > 10" "c' > 10"
  have "\<And>k. item_warnings ps (c + n_unauth ps (take k items)) (fst (items ! k))
           = item_warnings ps (c' + n_unauth ps (take k items)) (fst (items ! k))"
  proof -
    fix k
    have "0 \<le> n_unauth ps (take k items)" by (rule n_unauth_nonneg)
    with a show "item_warnings ps (c + n_unauth ps (take k items)) (fst (items ! k))
           = item_warnings ps (c' + n_unauth ps (take k items)) (fst (items ! k))"
      by (intro item_warnings_beyond) arith+
  qed
  then show ?thesis by (simp add: call_warnings_def)
qed

lemma pass_items_Ok:
  "pass_items e items b = (Ok, b') \<Longrightarrow>
     PLUGINS_TASK (window b') = PLUGINS_TASK (window b)
     \<and> applied (events (window b')) =
         applied (events (window b)) @ filter (\<lambda>item. routed (PLUGINS_TASK (window b)) (fst item)) items
     \<and> error_counter b' =
         (if error_counter b > 10 then error_counter b
          else min 11 (error_counter b + n_unauth (PLUGINS_TASK (window b)) items))
     \<and> warnings (events (window b')) =
         warnings (events (window b)) @ call_warnings (PLUGINS_TASK (window b)) (error_counter b) items"
proof (induction items arbitrary: b)
  case Nil
  then show ?case by (simp add: n_unauth_def)
next
  case (Cons item items)
  obtain n d where item: "item = (n, d)" by (cases item)
  from Cons.prems obtain b1 where 1: "pass_item e (n, d) b = (Ok, b1)"
    and 2: "pass_items e items b1 = (Ok, b')"
    by (auto simp: item split: prod.splits status.splits)
  note h = pass_item_Ok[OF 1]
  note ih = Cons.IH[OF 2]
  define ps where "ps = PLUGINS_TASK (window b)"
  from h have pt: "PLUGINS_TASK (window b1) = ps" by (simp add: ps_def)
  have nn: "n_unauth ps (item # items) = (if unauthoritative ps n then 1 else 0) + n_unauth ps items"
    by (simp add: n_unauth_Cons item)
  have ge: "0 \<le> n_unauth ps items" by (rule n_unauth_nonneg)
  have c1: "error_counter b1 = (if unauthoritative ps n \<and> error_counter b \<le> 10
                                then error_counter b + 1 else error_counter b)"
    using h by (simp add: ps_def)
  have w1: "warnings (events (window b1)) =
              warnings (events (window b)) @ item_warnings ps (error_counter b) n"
    using h by (simp add: ps_def item_warnings_def)
  have rest: "call_warnings ps (error_counter b1) items
              = call_warnings ps (error_counter b + (if unauthoritative ps n then 1 else 0)) items"
  proof (cases "unauthoritative ps n \<and> error_counter b > 10")
    case True
    then show ?thesis unfolding c1 by (intro call_warnings_beyond) simp_all
  next
    case False
    then show ?thesis unfolding c1 by auto
  qed
  show ?case
  proof (intro conjI)
    show "PLUGINS_TASK (window b') = PLUGINS_TASK (window b)" using ih pt by (simp add: ps_def)
    show "applied (events (window b')) =
         applied (events (window b)) @ filter (\<lambda>item. routed (PLUGINS_TASK (window b)) (fst item)) (item # items)"
      using ih h by (simp add: pt item ps_def[symmetric])
    show "error_counter b' =
         (if error_counter b > 10 then error_counter b
          else min 11 (error_counter b + n_unauth (PLUGINS_TASK (window b)) (item # items)))"
      using ih ge unfolding pt ps_def[symmetric] nn c1 by (auto split: if_splits)
    show "warnings (events (window b')) =
         warnings (events (window b)) @ call_warnings (PLUGINS_TASK (window b)) (error_counter b) (item # items)"
      using ih unfolding pt ps_def[symmetric]
      by (simp add: w1 rest call_warnings_Cons item)
  qed
qed

text \<open>
  Claim C2, as amended. For a call of \<^verbatim>\<open>pass_new_input\<close> that returns (no message box was
  answered with Abort): the inputs applied are exactly those of the items whose plugin exists,
  has \<^verbatim>\<open>applyNewInputs\<close> and is Host-authoritative, in the order of the items. Only an item
  for a plugin that exists and has \<^verbatim>\<open>applyNewInputs\<close> but is not Host-authoritative touches
  the counter: it adds one, silently, while the counter is at most 10, and raises the
  message box \<open>InputNotServer\<close> instead once the counter exceeds 10, that is, exactly when the
  counter at the start of the call plus the number of such items before it in the call
  exceeds 10. An item for a plugin that does not exist or has no \<^verbatim>\<open>applyNewInputs\<close> raises
  its message box at once and never counts. These are all the message boxes of the call, in
  the order of the items. After the call the counter is reset to zero when the call left it
  as it was.
\<close>

theorem C2_pass_new_input:
  assumes "remote_pass_new_input e new_input b = (Ok, b')"
  shows "applied (events (window b')) =
           applied (events (window b))
           @ filter (\<lambda>item. routed (PLUGINS_TASK (window b)) (fst item)) new_input
       \<and> error_counter b' =
           (let c = (if error_counter b > 10 then error_counter b
                     else min 11 (error_counter b + n_unauth (PLUGINS_TASK (window b)) new_input))
            in if c = error_counter b then 0 else c)
       \<and> warnings (events (window b')) =
           warnings (events (window b))
           @ call_warnings (PLUGINS_TASK (window b)) (error_counter b) new_input"
proof -
  from assms obtain b1 where 1: "pass_items e new_input b = (Ok, b1)"
    and b': "b' = (if error_counter b = error_counter b1 then b1\<lparr>error_counter := 0\<rparr> else b1)"
    by (auto simp: remote_pass_new_input_def Let_def split: prod.splits status.splits)
  note h = pass_items_Ok[OF 1]
  show ?thesis using h by (auto simp: b' Let_def)
qed

theorem C2_pass_new_input_witness:
  "fst (remote_pass_new_input example_env
       [(''track'', ''a''), (''resman'', ''b''), (''resman'', ''c''), (''ghost'', ''d''), (''sysmon'', ''e'')]
       example_routing) = Ok
   \<and> applied (events (window (snd (remote_pass_new_input example_env
       [(''track'', ''a''), (''resman'', ''b''), (''resman'', ''c''), (''ghost'', ''d''), (''sysmon'', ''e'')]
       example_routing)))) = [(''track'', ''a'')]
   \<and> error_counter (snd (remote_pass_new_input example_env
       [(''track'', ''a''), (''resman'', ''b''), (''resman'', ''c''), (''ghost'', ''d''), (''sysmon'', ''e'')]
       example_routing)) = 11
   \<and> warnings (events (window (snd (remote_pass_new_input example_env
       [(''track'', ''a''), (''resman'', ''b''), (''resman'', ''c''), (''ghost'', ''d''), (''sysmon'', ''e'')]
       example_routing)))) = [InputNotServer ''resman'', InputNoPlugin ''ghost'', InputNoApply ''sysmon'']"
proof -
  define items where "items =
    [(''track'', ''a''), (''resman'', ''b''), (''resman'', ''c''), (''ghost'', ''d''), (''sysmon'', ''e'')]"
  have ok: "fst (remote_pass_new_input example_env items example_routing) = Ok"
    unfolding items_def by code_simp
  then have eq: "remote_pass_new_input example_env items example_routing =
        (Ok, snd (remote_pass_new_input example_env items example_routing))"
    by (simp add: prod_eq_iff)
  have a: "applied (events (window example_routing))
           @ filter (\<lambda>item. routed (PLUGINS_TASK (window example_routing)) (fst item)) items
           = [(''track'', ''a'')]"
    unfolding items_def by code_simp
  have c: "(let c = (if error_counter example_routing > 10 then error_counter example_routing
                     else min 11 (error_counter example_routing
                                    + n_unauth (PLUGINS_TASK (window example_routing)) items))
            in if c = error_counter example_routing then 0 else c) = 11"
    unfolding items_def by code_simp
  have w: "warnings (events (window example_routing))
           @ call_warnings (PLUGINS_TASK (window example_routing)) (error_counter example_routing) items
           = [InputNotServer ''resman'', InputNoPlugin ''ghost'', InputNoApply ''sysmon'']"
    unfolding items_def by code_simp
  from C2_pass_new_input[OF eq] ok show ?thesis
    unfolding a c w unfolding items_def by simp
qed

text \<open>
  Claim C2 as stated fails: the first item for a plugin that does not exist raises the
  message box at once and leaves the counter at zero, and with ten errors counted the
  eleventh is still taken silently.
\<close>

theorem C2_pass_new_input_counterexample:
  "remote_pass_new_input example_env [(''ghost'', ''b'')] (example_broker 0) =
     (Ok, \<lparr>window = example_host\<lparr>dialogs_shown := 1, events := [Dialog (InputNoPlugin ''ghost'')]\<rparr>,
           error_counter = 0\<rparr>)
   \<and> remote_pass_new_input example_env [(''track'', ''a'')] (example_broker 10) =
     (Ok, \<lparr>window = example_host, error_counter = 11\<rparr>)"
  by (simp add: remote_pass_new_input_def pass_item_def Let_def example_broker_def
                example_host_def example_main_def example_plugin_def example_env_def
                showCriticalMessage_def emit_def)

section \<open>C3\<close>

lemma keeps_refl [simp]: "keeps s s"
  by (simp add: keeps_def)








lemma updates_concat: "(\<And>x. x \<in> set xss \<Longrightarrow> updates x = []) \<Longrightarrow> updates (concat xss) = []"
  by (induction xss) auto

lemma plugin_hooks_onEnd_updates [simp]: "updates (plugin_hooks ''onEnd'' x) = []"
  unfolding plugin_hooks_def by (rule updates_concat) auto

lemma pop_inputs_quiet [simp]: "updates (pop_inputs s) = []" "unmarked (pop_inputs s)"
  unfolding pop_inputs_def by (rule updates_concat, auto)[1] (rule unmarked_concat, auto)


section \<open>C3\<close>











section \<open>C5\<close>









subsection \<open>Steps that leave the plugins alone\<close>

lemma still_refl [simp]: "still s s"
  by (simp add: still_def)

lemma still_trans: "still a b \<Longrightarrow> still b c \<Longrightarrow> still a c"
  by (auto simp: still_def)

lemma still_emit: "updates evs = [] \<Longrightarrow> still s (emit evs s)"
  by (simp add: still_def)

lemma and_then_still':
  assumes "still s (snd r)" and "\<And>a. still a (snd (f a))"
  shows "still s (snd (and_then r f))"
proof (cases r)
  case (Pair st0 s0)
  show ?thesis
  proof (cases "st0 = Ok")
    case True
    with Pair have "and_then r f = f s0" by (simp add: and_then_def)
    with assms Pair show ?thesis by (auto intro: still_trans)
  next
    case False
    with Pair have "and_then r f = r" by (cases st0) (simp_all add: and_then_def)
    with assms(1) show ?thesis by simp
  qed
qed

lemma end_session_still': "still s (snd (end_session s))"
  by (simp add: end_session_def Let_def still_def)

lemma onEnd_still': "still s (snd (onEnd w s))"
proof -
  have "still s (s\<lparr>experiment_running := False\<rparr>)" by (simp add: still_def)
  moreover have "still (s\<lparr>experiment_running := False\<rparr>) (snd (end_session (s\<lparr>experiment_running := False\<rparr>)))"
    by (rule end_session_still')
  moreover have "still s (s\<lparr>experiment_running := False, ended_time := w\<rparr>)" by (simp add: still_def)
  ultimately show ?thesis by (auto simp: onEnd_def Let_def intro: still_trans)
qed

lemma showCriticalMessage_still': "still s (snd (showCriticalMessage e d s))"
proof -
  define s1 where "s1 = (emit [Dialog d] s)\<lparr>dialogs_shown := dialogs_shown s + 1\<rparr>"
  have 1: "still s s1" by (simp add: s1_def still_def)
  have "still s1 (snd (onEnd (answered_at e (dialogs_shown s)) s1))" by (rule onEnd_still')
  with 1 have "still s (snd (onEnd (answered_at e (dialogs_shown s)) s1))" by (rule still_trans)
  with 1 show ?thesis by (simp add: showCriticalMessage_def Let_def s1_def)
qed

lemma full_sync_still': "still s (snd (full_sync e i n p s))"
  by (simp add: full_sync_def showCriticalMessage_still' still_emit)

lemma doNetworkCommunications_still': "still s (snd (doNetworkCommunications i s))"
proof -
  have 1: "still s (emit (pop_inputs s) s)" by (simp add: still_emit)
  have "still (emit (pop_inputs s) s) (snd (onEnd (now_wall i) (emit (pop_inputs s) s)))"
    by (rule onEnd_still')
  with 1 have "still s (snd (onEnd (now_wall i) (emit (pop_inputs s) s)))" by (rule still_trans)
  with 1 show ?thesis by (simp add: doNetworkCommunications_def Let_def)
qed

lemma pause_sync_still': "still s (snd (pause_sync e j n s))"
  by (simp add: pause_sync_def full_sync_still' split: option.splits)

lemma pause_syncs_still': "still s (snd (pause_syncs e j ns s))"
proof (induction ns arbitrary: s)
  case Nil
  show ?case by simp
next
  case (Cons n ns)
  show ?case using Cons.IH by (simp, intro and_then_still' pause_sync_still')
qed

lemma pause_polls_still': "still s (snd (pause_polls e js s))"
proof (induction js arbitrary: s)
  case Nil
  show ?case by simp
next
  case (Cons j js)
  show ?case using Cons.IH
    by (simp, intro and_then_still' doNetworkCommunications_still' pause_syncs_still')
qed

lemma update_label_updates: "update_label s n = Inr evs \<Longrightarrow> updates evs = [] \<and> (\<forall>t f. Hook t f \<notin> set evs)"
  by (auto simp: update_label_def split: if_splits option.splits pval.splits)

lemma updateLabels_loop_quiet:
  "\<exists>evs. snd (updateLabels_loop ns s) = emit evs s \<and> updates evs = [] \<and> (\<forall>t f. Hook t f \<notin> set evs)"
proof (induction ns arbitrary: s)
  case Nil
  show ?case by (auto intro: exI[of _ "[]"])
next
  case (Cons n ns)
  show ?case
  proof (cases "update_label s n")
    case (Inl err)
    then show ?thesis by (auto intro: exI[of _ "[]"])
  next
    case (Inr evs)
    from Cons.IH[of "emit evs s"] obtain evs' where
      "snd (updateLabels_loop ns (emit evs s)) = emit evs' (emit evs s)" "updates evs' = []"
      "\<forall>t f. Hook t f \<notin> set evs'" by blast
    with update_label_updates[OF Inr] Inr show ?thesis
      by (auto simp: emit_emit intro!: exI[of _ "evs @ evs'"])
  qed
qed

lemma labels_quiet:
  "\<exists>evs. snd (if (case map_of (main_parameters s3) ''showlabels'' of None \<Rightarrow> False | Some v \<Rightarrow> truthy v)
              then updateLabels s3 else (Ok, s3)) = emit evs s3
         \<and> updates evs = [] \<and> (\<forall>t f. Hook t f \<notin> set evs)"
  using updateLabels_loop_quiet[of "loadedTasks s3" s3]
  by (auto simp: updateLabels_def intro: exI[of _ "[]"])

text \<open>No step but the barrier gives \<open>Blocked\<close>.\<close>

lemma and_then_Blocked:
  "fst (and_then r f) = Blocked \<Longrightarrow> fst r \<noteq> Blocked \<Longrightarrow> (\<And>a. fst (f a) \<noteq> Blocked) \<Longrightarrow> False"
  by (cases r; cases "fst r") (auto simp: and_then_def)

lemma and_then_not_Blocked:
  "fst r \<noteq> Blocked \<Longrightarrow> (\<And>a. fst (f a) \<noteq> Blocked) \<Longrightarrow> fst (and_then r f) \<noteq> Blocked"
  using and_then_Blocked by blast

lemma showCriticalMessage_not_Blocked [simp]: "fst (showCriticalMessage e d s) \<noteq> Blocked"
  by (simp add: showCriticalMessage_def Let_def)

lemma onEnd_not_Blocked [simp]: "fst (onEnd w s) \<noteq> Blocked"
  by (simp add: onEnd_def end_session_def Let_def)

lemma full_sync_not_Blocked [simp]: "fst (full_sync e i n p s) \<noteq> Blocked"
  by (simp add: full_sync_def)

lemma doNetworkCommunications_not_Blocked [simp]: "fst (doNetworkCommunications i s) \<noteq> Blocked"
  by (simp add: doNetworkCommunications_def Let_def)

lemma pause_sync_not_Blocked [simp]: "fst (pause_sync e j n s) \<noteq> Blocked"
  by (simp add: pause_sync_def split: option.splits)

lemma pause_syncs_not_Blocked [simp]: "fst (pause_syncs e j ns s) \<noteq> Blocked"
proof (induction ns arbitrary: s)
  case Nil
  show ?case by simp
next
  case (Cons n ns)
  show ?case using Cons.IH by (simp, intro and_then_not_Blocked) simp_all
qed

lemma pause_polls_not_Blocked [simp]: "fst (pause_polls e js s) \<noteq> Blocked"
proof (induction js arbitrary: s)
  case Nil
  show ?case by simp
next
  case (Cons j js)
  show ?case using Cons.IH by (simp, intro and_then_not_Blocked) simp_all
qed

lemma resume_plugins_not_Blocked [simp]: "fst (resume_plugins dn ps s) \<noteq> Blocked"
proof (induction ps arbitrary: dn s)
  case Nil
  show ?case by simp
next
  case (Cons kv ps)
  show ?case using Cons.IH by (cases "resume_plugin kv") (auto split: prod.splits)
qed

lemma onResume_not_Blocked [simp]: "fst (onResume s) \<noteq> Blocked"
  by (simp add: onResume_def Let_def)

lemma updateLabels_loop_not_Blocked [simp]: "fst (updateLabels_loop ns s) \<noteq> Blocked"
proof (induction ns arbitrary: s)
  case Nil
  show ?case by simp
next
  case (Cons n ns)
  show ?case using Cons.IH by (cases "update_label s n") auto
qed

lemma labels_not_Blocked [simp]:
  "fst (if (case map_of (main_parameters s3) ''showlabels'' of None \<Rightarrow> False | Some v \<Rightarrow> truthy v)
        then updateLabels s3 else (Ok, s3)) \<noteq> Blocked"
  by (simp add: updateLabels_def)

lemma run_callbacks_not_Blocked [simp]: "fst (run_callbacks e cs s) \<noteq> Blocked"
proof (induction cs arbitrary: s)
  case Nil
  show ?case by simp
next
  case (Cons c cs)
  show ?case using Cons.IH by (cases c) (simp_all, (intro and_then_not_Blocked, simp_all)+)
qed

subsection \<open>The calls of a hook into Main\<close>

lemma onPause_facts:
  "experiment_pause (onPause h s)" "PLUGINS_TASK (onPause True s) = session_paused (PLUGINS_TASK s)"
  "loadedTasks (onPause h s) = loadedTasks s" "main_parameters (onPause h s) = main_parameters s"
  "pauses_done (onPause h s) = pauses_done s" "registeredTaskTimer (onPause h s) = registeredTaskTimer s"
  "totalElapsedTime_ms (onPause h s) = totalElapsedTime_ms s"
  by (simp_all add: onPause_def Let_def session_paused_def comp_def)

lemma run_callbacks_none: "CallOnPause \<notin> set cs \<Longrightarrow> still s (snd (run_callbacks e cs s))"
proof (induction cs arbitrary: s)
  case Nil
  show ?case by simp
next
  case (Cons c cs)
  then obtain msg where c: "c = CallCritical msg" by (cases c) auto
  from Cons have "\<And>a. still a (snd (run_callbacks e cs a))" by simp
  then show ?case unfolding c by (simp, intro and_then_still' showCriticalMessage_still')
qed

lemma run_callbacks_once:
  "length (filter (\<lambda>c. c = CallOnPause) cs) = 1 \<Longrightarrow> run_callbacks e cs s = (Ok, s') \<Longrightarrow>
   PLUGINS_TASK s' = session_paused (PLUGINS_TASK s) \<and> experiment_pause s'
   \<and> loadedTasks s' = loadedTasks s \<and> main_parameters s' = main_parameters s
   \<and> pauses_done s' = pauses_done s"
proof (induction cs arbitrary: s)
  case Nil
  then show ?case by simp
next
  case (Cons c cs)
  show ?case
  proof (cases c)
    case CallOnPause
    with Cons.prems have n: "CallOnPause \<notin> set cs" by (auto simp: filter_empty_conv)
    from Cons.prems CallOnPause have r: "run_callbacks e cs (onPause True s) = (Ok, s')"
      by (simp add: and_then_def)
    from run_callbacks_none[OF n, of "onPause True s" e] r
    show ?thesis by (simp add: still_def onPause_facts)
  next
    case (CallCritical msg)
    obtain st1 s1 where m: "showCriticalMessage e (PluginMessage msg) s = (st1, s1)"
      by (cases "showCriticalMessage e (PluginMessage msg) s")
    with Cons.prems CallCritical have st1: "st1 = Ok" and r: "run_callbacks e cs s1 = (Ok, s')"
      by (cases st1; simp add: and_then_def)+
    from Cons.prems CallCritical have "length (filter (\<lambda>c. c = CallOnPause) cs) = 1" by simp
    from Cons.IH[OF this r] showCriticalMessage_still'[of s e "PluginMessage msg"] m
    show ?thesis by (simp add: still_def)
  qed
qed

subsection \<open>The pause barrier\<close>

lemma resume_plugin_key:
  "resume_plugin kv = Inr (kv', evs) \<Longrightarrow>
   fst kv' = fst kv \<and> TIME_SINCE_UPDATE (snd kv') = TIME_SINCE_UPDATE (snd kv) \<and> updates evs = []"
  by (cases kv) (auto simp: resume_plugin_def Let_def split: if_splits option.splits)

lemma resume_plugins_accumulators:
  "resume_plugins dn ps s = (st, s') \<Longrightarrow>
   map (\<lambda>kv. (fst kv, TIME_SINCE_UPDATE (snd kv))) (PLUGINS_TASK s')
     = map (\<lambda>kv. (fst kv, TIME_SINCE_UPDATE (snd kv))) (dn @ ps)
   \<and> updates (events s') = updates (events s)
   \<and> totalElapsedTime_ms s' = totalElapsedTime_ms s"
proof (induction ps arbitrary: dn s)
  case Nil
  then show ?case by auto
next
  case (Cons kv ps)
  show ?case
  proof (cases "resume_plugin kv")
    case (Inl err)
    with Cons.prems show ?thesis by auto
  next
    case (Inr r)
    obtain kv' evs where r: "r = (kv', evs)" by (cases r)
    with Inr Cons.prems have "resume_plugins (dn @ [kv']) ps (emit evs s) = (st, s')" by simp
    from Cons.IH[OF this] resume_plugin_key[OF Inr[unfolded r]] show ?thesis by simp
  qed
qed

lemma onResume_accumulators:
  "onResume s = (st, s') \<Longrightarrow>
   accumulators s' = accumulators s \<and> updates (events s') = updates (events s)
   \<and> totalElapsedTime_ms s' = totalElapsedTime_ms s"
proof -
  assume a: "onResume s = (st, s')"
  define s2 where "s2 = emit (map TimerResume [0 ..< registeredTaskTimer s])
       ((emit [LogLine [''MAIN'', ''STATE'', [], ''RESUME'']] s)\<lparr>experiment_pause := False\<rparr>)"
  have u: "updates (map TimerResume [0 ..< registeredTaskTimer s]) = []"
    by (induction "registeredTaskTimer s") (simp_all add: updates_def)
  from a have "resume_plugins [] (PLUGINS_TASK s2) s2 = (st, s')"
    by (simp add: onResume_def Let_def s2_def)
  from resume_plugins_accumulators[OF this] u show ?thesis
    by (simp add: accumulators_def s2_def)
qed

lemma onResume_paused:
  assumes "PLUGINS_TASK s = session_paused ps"
  shows "fst (onResume s) = Ok \<and> PLUGINS_TASK (snd (onResume s)) = map after_pause ps
       \<and> \<not> experiment_pause (snd (onResume s))
       \<and> loadedTasks (snd (onResume s)) = loadedTasks s
       \<and> main_parameters (snd (onResume s)) = main_parameters s
       \<and> pauses_done (snd (onResume s)) = pauses_done s"
proof -
  define s2 where "s2 = emit (map TimerResume [0 ..< registeredTaskTimer s])
       ((emit [LogLine [''MAIN'', ''STATE'', [], ''RESUME'']] s)\<lparr>experiment_pause := False\<rparr>)"
  have pt: "PLUGINS_TASK s2 = map (\<lambda>kv. fst (pause_plugin True kv)) ps"
    using assms by (simp add: s2_def session_paused_def)
  have on: "onResume s = resume_plugins [] (PLUGINS_TASK s2) s2"
    by (simp add: onResume_def Let_def s2_def)
  have all: "\<forall>kv \<in> set (PLUGINS_TASK s2). \<exists>r. resume_plugin kv = Inr r"
    by (auto simp: pt resume_after_pause)
  have f: "\<not> experiment_pause s2" "loadedTasks s2 = loadedTasks s"
    "main_parameters s2 = main_parameters s" "pauses_done s2 = pauses_done s"
    by (simp_all add: s2_def)
  show ?thesis
    unfolding on resume_plugins_all[OF all]
    by (simp add: pt comp_def resume_after_pause f)
qed

text \<open>The barrier when the session is not paused, and when it is and the wait ends.\<close>

lemma waitEndofPause_idle:
  "\<not> experiment_pause s \<Longrightarrow>
   waitEndofPause e i s = (Ok, s\<lparr>last_time_microsec := now_timer (current i s)\<rparr>)"
  by (simp add: waitEndofPause_def)

lemma waitEndofPause_waits:
  "experiment_pause s \<Longrightarrow> pauses e (pauses_done s) = None \<Longrightarrow> waitEndofPause e i s = (Blocked, s)"
  by (simp add: waitEndofPause_def)

lemma waitEndofPause_Blocked:
  assumes "fst (waitEndofPause e i s) = Blocked"
  shows "waitEndofPause e i s = (Blocked, s) \<and> experiment_pause s \<and> pauses e (pauses_done s) = None"
proof (cases "experiment_pause s")
  case False
  with assms show ?thesis by (simp add: waitEndofPause_def)
next
  case True
  show ?thesis
  proof (cases "pauses e (pauses_done s)")
    case None
    with True show ?thesis by (simp add: waitEndofPause_def)
  next
    case (Some p)
    have "fst (and_then (pause_polls e (polls p) s)
               (\<lambda>s1. and_then (onResume s1)
                  (\<lambda>s2. (Ok, s2\<lparr>last_time_microsec := resume_timer p,
                                  resumed := Some (resume_timer p, resume_wall p),
                                  pauses_done := pauses_done s2 + 1\<rparr>)))) \<noteq> Blocked"
      by (intro and_then_not_Blocked) simp_all
    with assms True Some show ?thesis by (simp add: waitEndofPause_def)
  qed
qed

lemma waitEndofPause_resumed:
  assumes p: "experiment_pause s" and pin: "pauses e (pauses_done s) = Some pin"
    and w: "waitEndofPause e i s = (Ok, s')"
  shows "\<exists>s1 s2. pause_polls e (polls pin) s = (Ok, s1) \<and> onResume s1 = (Ok, s2)
           \<and> s' = s2\<lparr>last_time_microsec := resume_timer pin,
                      resumed := Some (resume_timer pin, resume_wall pin),
                      pauses_done := pauses_done s2 + 1\<rparr>"
proof -
  obtain st1 s1 where 1: "pause_polls e (polls pin) s = (st1, s1)" by (cases "pause_polls e (polls pin) s")
  obtain st2 s2 where 2: "onResume s1 = (st2, s2)" by (cases "onResume s1")
  from w p pin 1 have st1: "st1 = Ok" by (cases st1) (simp_all add: waitEndofPause_def and_then_def)
  from w p pin 1 2 st1 have st2: "st2 = Ok" by (cases st2) (simp_all add: waitEndofPause_def and_then_def)
  from w p pin 1 2 st1 st2 show ?thesis by (simp add: waitEndofPause_def and_then_def)
qed

end
